theory Spec2Isabelle
  imports Complex_Main "HOL-Library.Word"
begin

chapter \<open>The multi-GPU Estimator notebook\<close>

text \<open>
  A shallow embedding of the code cells of \<^verbatim>\<open>7-estimators-multi-gpus.ipynb\<close>: the
  step-timing hook, the throughput figures, the preprocessing of the Fashion-MNIST
  arrays, the two input functions and the layer-freezing loop. The notebook is glue
  around TensorFlow, Keras and NumPy; a call into those libraries is either a
  parameter of the definition that makes it (so that a theorem holds whatever the
  library does, failure included) or, where a property depends on what the call
  computes, a definition that follows the library's documented behaviour and says so.
\<close>

section \<open>Exceptions\<close>

text \<open>
  A Python call either returns a value or raises. Results are \<open>exn + 'a\<close>, with
  \<open>Inl\<close> the exception raised.
\<close>

datatype exn =
    AttributeError string
  | IndexError
  | ValueError
  | TypeError
  | InvalidArgumentError
  | FailedPreconditionError
  | LibraryError string

text \<open>Sequencing of two statements: an exception of the first skips the second.\<close>

definition and_then :: "exn + 'a \<Rightarrow> ('a \<Rightarrow> exn + 'b) \<Rightarrow> exn + 'b" where
  "and_then r k = (case r of Inl e \<Rightarrow> Inl e | Inr v \<Rightarrow> k v)"

section \<open>The step-timing hook (cell 11)\<close>

text \<open>
  \<^verbatim>\<open>
  class TimeHistory(tf.train.SessionRunHook):
      def begin(self):
          self.times = []
      def before_run(self, run_context):
          self.iter_time_start = time.time()
      def after_run(self, run_context, run_values):
          self.times.append(time.time() - self.iter_time_start)
  \<close>
  An instance has no attribute until a method assigns it: both attributes are
  options, \<open>None\<close> for "not set". The attribute \<^verbatim>\<open>times\<close> is called \<open>times_attr\<close>
  (\<open>times\<close> is multiplication in HOL), the method \<^verbatim>\<open>begin\<close> is \<open>hook_begin\<close>
  (\<open>begin\<close> is a keyword). Timestamps are Python floats; they are modelled as exact
  rationals. The arguments \<^verbatim>\<open>run_context\<close> and \<^verbatim>\<open>run_values\<close> are never read
  and are left out.
\<close>

record TimeHistory =
  times_attr :: "rat list option"
  iter_time_start :: "rat option"

definition hook_begin :: "TimeHistory \<Rightarrow> exn + TimeHistory" where
  "hook_begin self = Inr (self\<lparr>times_attr := Some []\<rparr>)"

text \<open>
  The methods that read the clock take the outcome of their one call of
  \<^verbatim>\<open>time.time()\<close> as the argument \<open>time_time\<close>.
\<close>

definition before_run :: "exn + rat \<Rightarrow> TimeHistory \<Rightarrow> exn + TimeHistory" where
  "before_run time_time self =
     and_then time_time (\<lambda>t. Inr (self\<lparr>iter_time_start := Some t\<rparr>))"

text \<open>
  Python evaluates \<^verbatim>\<open>self.times.append(time.time() - self.iter_time_start)\<close> from left
  to right: the attribute \<^verbatim>\<open>times\<close> first, then the clock, then
  \<^verbatim>\<open>iter_time_start\<close>. Reading an attribute that was never set raises
  AttributeError.
\<close>

definition after_run :: "exn + rat \<Rightarrow> TimeHistory \<Rightarrow> exn + TimeHistory" where
  "after_run time_time self =
     (case times_attr self of
        None \<Rightarrow> Inl (AttributeError ''times'')
      | Some ts \<Rightarrow>
          and_then time_time (\<lambda>t.
            case iter_time_start self of
              None \<Rightarrow> Inl (AttributeError ''iter_time_start'')
            | Some t0 \<Rightarrow> Inr (self\<lparr>times_attr := Some (ts @ [t - t0])\<rparr>)))"

text \<open>
  The training session drives the hook: \<^verbatim>\<open>begin\<close> once, then
  \<^verbatim>\<open>before_run\<close> and \<^verbatim>\<open>after_run\<close> around every step. \<open>clk k\<close> is the outcome of the
  \<open>k\<close>-th call of \<^verbatim>\<open>time.time()\<close>; \<open>train_steps clk k n\<close> runs \<open>n\<close> steps, the first
  of which makes call number \<open>k\<close>.
\<close>

fun train_steps :: "(nat \<Rightarrow> exn + rat) \<Rightarrow> nat \<Rightarrow> nat \<Rightarrow> TimeHistory \<Rightarrow> exn + TimeHistory" where
  "train_steps clk k 0 self = Inr self"
| "train_steps clk k (Suc n) self =
     and_then (before_run (clk k) self) (\<lambda>s1.
     and_then (after_run (clk (Suc k)) s1) (\<lambda>s2.
     train_steps clk (Suc (Suc k)) n s2))"

definition train_run :: "(nat \<Rightarrow> exn + rat) \<Rightarrow> nat \<Rightarrow> TimeHistory \<Rightarrow> exn + TimeHistory" where
  "train_run clk n self = and_then (hook_begin self) (train_steps clk 0 n)"

section \<open>Throughput figures (cells 13 and 14)\<close>

text \<open>
  NumPy floats are the rationals and three special values. Signed zeros are not
  told apart.
\<close>

datatype npfloat = Finite rat | PosInf | NegInf | NaN

text \<open>\<^verbatim>\<open>total_time = sum(time_hist.times)\<close>: Python's \<^verbatim>\<open>sum\<close> adds from the left, starting at 0.\<close>

definition total_time :: "rat list \<Rightarrow> rat" where
  "total_time ts = foldl (+) 0 ts"

text \<open>
  \<^verbatim>\<open>np.mean\<close> of a list is the sum over the count; of an empty list it is nan (with a
  warning, not an exception).
\<close>

definition np_mean :: "rat list \<Rightarrow> npfloat" where
  "np_mean ts = (if ts = [] then NaN else Finite (sum_list ts / of_nat (length ts)))"

text \<open>
  A Python int divided by a NumPy float: division by zero gives an infinity (nan for
  0/0) with a warning, not an exception.
\<close>

definition np_truediv :: "int \<Rightarrow> npfloat \<Rightarrow> npfloat" where
  "np_truediv n d =
     (case d of
        Finite q \<Rightarrow>
          if q = 0 then (if n = 0 then NaN else if 0 < n then PosInf else NegInf)
          else Finite (of_int n / q)
      | PosInf \<Rightarrow> Finite 0
      | NegInf \<Rightarrow> Finite 0
      | NaN \<Rightarrow> NaN)"

definition avg_time_per_batch :: "rat list \<Rightarrow> npfloat" where
  "avg_time_per_batch ts = np_mean ts"

text \<open>The printed figure \<^verbatim>\<open>BATCH_SIZE*NUM_GPUS/avg_time_per_batch\<close>.\<close>

definition images_per_second :: "int \<Rightarrow> int \<Rightarrow> rat list \<Rightarrow> npfloat" where
  "images_per_second BATCH_SIZE NUM_GPUS ts =
     np_truediv (BATCH_SIZE * NUM_GPUS) (avg_time_per_batch ts)"

section \<open>Single-precision arithmetic\<close>

text \<open>
  \<^verbatim>\<open>np.float32\<close> values are IEEE 754 binary32: 24 significant bits, exponents from
  -126 to 127, subnormals below, round to nearest with ties to even. \<open>f32_round\<close>
  rounds an exact rational to the nearest such value.
\<close>

definition round_half_even :: "rat \<Rightarrow> int" where
  "round_half_even x =
     (let f = \<lfloor>x\<rfloor>; d = x - of_int f
      in if d < 1/2 then f else if 1/2 < d then f + 1 else if even f then f else f + 1)"

text \<open>
  The binary exponent of a positive rational: how often it is doubled to reach 1 (at
  most 126 times: smaller values are subnormal and share the exponent -126), or
  halved to fall below 2 (128 halvings mean overflow).
\<close>

fun doublings :: "nat \<Rightarrow> rat \<Rightarrow> nat" where
  "doublings 0 x = 0"
| "doublings (Suc n) x = (if 1 \<le> x then 0 else Suc (doublings n (2 * x)))"

fun halvings :: "nat \<Rightarrow> rat \<Rightarrow> nat" where
  "halvings 0 x = 0"
| "halvings (Suc n) x = (if x < 2 then 0 else Suc (halvings n (x / 2)))"

definition f32_exponent :: "rat \<Rightarrow> int" where
  "f32_exponent a = (if 1 \<le> a then int (halvings 128 a) else - int (doublings 126 a))"

definition f32_round :: "rat \<Rightarrow> npfloat" where
  "f32_round x =
     (let a = \<bar>x\<bar>;
          ulp = 2 powi (f32_exponent a - 23);
          r = of_int (round_half_even (a / ulp)) * ulp
      in if 2 ^ 128 \<le> r then (if 0 < x then PosInf else NegInf)
         else Finite (sgn x * r))"

text \<open>
  The quotient of two single-precision values is the exact quotient, rounded; a
  zero divisor gives an infinity or nan.
\<close>

definition f32_truediv :: "rat \<Rightarrow> rat \<Rightarrow> npfloat" where
  "f32_truediv a b =
     (if b = 0 then (if a = 0 then NaN else if 0 < a then PosInf else NegInf)
      else f32_round (a / b))"

section \<open>Arrays\<close>

text \<open>
  A NumPy array is its shape and its elements in row-major (C) order. \<open>len\<close> of an
  array is its first dimension; an array with no dimension has no \<open>len\<close>. An item
  is read by one index per dimension.
\<close>

record 'a ndarray =
  shape :: "nat list"
  data :: "'a list"

definition well_shaped :: "'a ndarray \<Rightarrow> bool" where
  "well_shaped a \<longleftrightarrow> length (data a) = prod_list (shape a)"

definition len_ndarray :: "'a ndarray \<Rightarrow> exn + nat" where
  "len_ndarray a = (case shape a of [] \<Rightarrow> Inl TypeError | n # _ \<Rightarrow> Inr n)"

fun flat_index :: "nat list \<Rightarrow> nat list \<Rightarrow> nat option" where
  "flat_index [] [] = Some 0"
| "flat_index (n # ns) (i # is) =
     (if i < n then map_option (\<lambda>r. i * prod_list ns + r) (flat_index ns is) else None)"
| "flat_index _ _ = None"

definition item :: "'a ndarray \<Rightarrow> nat list \<Rightarrow> exn + 'a" where
  "item a idx =
     (case flat_index (shape a) idx of
        None \<Rightarrow> Inl IndexError
      | Some k \<Rightarrow> if k < length (data a) then Inr (data a ! k) else Inl IndexError)"

text \<open>
  Modelled from the spec: \<^verbatim>\<open>ndarray.reshape\<close> is NumPy's and is not in the
  repository; the spec only says that the notebook's own code is "array reshaping"
  into "shape batch \<times> height \<times> width \<times> channels". The definition follows NumPy's
  documented behaviour: the new array has the same elements in the same row-major
  order under the new shape, and the call raises ValueError when the new shape does
  not hold exactly as many elements as the array.
\<close>

definition reshape :: "'a ndarray \<Rightarrow> nat list \<Rightarrow> exn + 'a ndarray" where
  "reshape a newshape =
     (if prod_list newshape = length (data a) then Inr (a\<lparr>shape := newshape\<rparr>)
      else Inl ValueError)"

section \<open>Preprocessing of the images (cell 3)\<close>

text \<open>
  \<^verbatim>\<open>
  TRAINING_SIZE = len(train_images)
  train_images = np.asarray(train_images, dtype=np.float32) / 255
  train_images = train_images.reshape((TRAINING_SIZE, 28, 28, 1))
  \<close>
  and the same three steps for \<^verbatim>\<open>test_images\<close>. The loaded arrays hold unsigned
  bytes. The conversion to single precision is exact (every byte is representable),
  255 is representable, and the division is elementwise.
\<close>

definition normalize_pixel :: "8 word \<Rightarrow> npfloat" where
  "normalize_pixel p = f32_truediv (of_nat (unat p)) 255"

definition normalize_images :: "8 word ndarray \<Rightarrow> npfloat ndarray" where
  "normalize_images images = \<lparr>shape = shape images, data = map normalize_pixel (data images)\<rparr>"

definition preprocess_images :: "8 word ndarray \<Rightarrow> exn + npfloat ndarray" where
  "preprocess_images images =
     and_then (len_ndarray images) (\<lambda>SIZE.
       reshape (normalize_images images) [SIZE, 28, 28, 1])"

section \<open>One-hot encoding of the labels (cell 4)\<close>

text \<open>
  Modelled from the spec: \<^verbatim>\<open>tf.keras.utils.to_categorical\<close> is Keras's and is not in
  the repository; the spec calls its result "label one-hot encoding", "label vectors
  (one-hot encoded class indicators)" whose entries "sum to 1". The definition
  follows the Keras function for a vector of labels: a matrix of zeros with one
  row per label and \<open>num_classes\<close> columns, in which the entry of each row at its
  label is set to 1 by NumPy indexing (a negative label counts from the end, a label
  outside the row raises IndexError); a \<open>num_classes\<close> of 0 stands for "not given"
  and is replaced by the largest label plus one.
\<close>

definition one_hot_row :: "nat \<Rightarrow> int \<Rightarrow> exn + rat list" where
  "one_hot_row n l =
     (if - int n \<le> l \<and> l < int n
      then Inr ((replicate n 0)[nat (if l < 0 then l + int n else l) := 1])
      else Inl IndexError)"

fun one_hot_rows :: "nat \<Rightarrow> int list \<Rightarrow> exn + rat list list" where
  "one_hot_rows n [] = Inr []"
| "one_hot_rows n (l # ls) =
     and_then (one_hot_row n l) (\<lambda>r.
     and_then (one_hot_rows n ls) (\<lambda>rs. Inr (r # rs)))"

definition to_categorical :: "int list \<Rightarrow> nat \<Rightarrow> exn + rat list list" where
  "to_categorical y num_classes =
     (if num_classes = 0 \<and> y = [] then Inl ValueError
      else let n = (if num_classes = 0 then fold max y (hd y) + 1 else int num_classes)
           in if n < 0 then Inl ValueError else one_hot_rows (nat n) y)"

text \<open>
  \<^verbatim>\<open>
  LABEL_DIMENSIONS = 10
  train_labels = tf.keras.utils.to_categorical(train_labels, LABEL_DIMENSIONS)
  train_labels = train_labels.astype(np.float32)
  \<close>
  and the same for \<^verbatim>\<open>test_labels\<close>. The loaded labels are unsigned bytes; the cast
  rounds every entry to single precision.
\<close>

definition LABEL_DIMENSIONS :: nat where
  "LABEL_DIMENSIONS = 10"

definition encode_labels :: "8 word list \<Rightarrow> exn + npfloat list list" where
  "encode_labels labels =
     and_then (to_categorical (map (\<lambda>l. int (unat l)) labels) LABEL_DIMENSIONS) (\<lambda>m.
       Inr (map (map f32_round) m))"

section \<open>The libraries as parameters\<close>

text \<open>
  The input functions are chains of calls into \<^verbatim>\<open>tf.data\<close> and
  \<^verbatim>\<open>tf.contrib.data\<close>. The calls are the fields of a record that the input functions
  take as their first argument; each may return or raise. \<open>'t\<close> are the arrays
  sliced, \<open>'m\<close> the function mapped over the elements, \<open>'f\<close> the transformations
  handed to \<^verbatim>\<open>apply\<close>, \<open>'d\<close> the datasets.
\<close>

record ('t, 'm, 'f, 'd) data_api =
  from_tensor_slices :: "'t \<times> 't \<Rightarrow> exn + 'd"
  list_files :: "string \<Rightarrow> bool \<Rightarrow> exn + 'd"
  ds_shuffle :: "'d \<Rightarrow> int \<Rightarrow> exn + 'd"
  ds_repeat :: "'d \<Rightarrow> int \<Rightarrow> exn + 'd"
  ds_batch :: "'d \<Rightarrow> int \<Rightarrow> exn + 'd"
  ds_prefetch :: "'d \<Rightarrow> int option \<Rightarrow> exn + 'd"
  ds_apply :: "'d \<Rightarrow> 'f \<Rightarrow> exn + 'd"
  shuffle_and_repeat :: "int \<Rightarrow> int \<Rightarrow> exn + 'f"
  map_and_batch :: "'m \<Rightarrow> int \<Rightarrow> int option \<Rightarrow> exn + 'f"

text \<open>
  The tensor operations of the mapped function and of the label table: \<open>'tab\<close> are
  the lookup tables, \<open>'bytes\<close> the contents of a file, \<open>'img\<close> the image tensors. A
  tensor of strings is the list of its strings; \<open>string_split\<close> returns the
  \<^verbatim>\<open>values\<close> of its sparse result and \<open>values_item\<close> is the indexing of these.
\<close>

record ('tab, 'bytes, 'img) tensor_api =
  tf_constant :: "string list \<Rightarrow> exn + string list"
  index_table_from_tensor :: "string list \<Rightarrow> exn + 'tab"
  table_lookup :: "'tab \<Rightarrow> string \<Rightarrow> exn + int"
  string_split :: "string list \<Rightarrow> string \<Rightarrow> exn + string list"
  values_item :: "string list \<Rightarrow> int \<Rightarrow> exn + string"
  read_file :: "string \<Rightarrow> exn + 'bytes"
  decode_jpeg :: "'bytes \<Rightarrow> nat \<Rightarrow> exn + 'img"
  convert_image_dtype :: "'img \<Rightarrow> exn + 'img"
  resize_images :: "'img \<Rightarrow> nat \<times> nat \<Rightarrow> exn + 'img"
  one_hot :: "int \<Rightarrow> nat \<Rightarrow> exn + rat list"

section \<open>The Fashion-MNIST input function (cell 10)\<close>

text \<open>
  \<^verbatim>\<open>
  def input_fn(images, labels, epochs, batch_size):
      dataset = tf.data.Dataset.from_tensor_slices((images, labels))
      SHUFFLE_SIZE = 5000
      dataset = dataset.shuffle(SHUFFLE_SIZE).repeat(epochs).batch(batch_size)
      dataset = dataset.prefetch(None)
      return dataset
  \<close>
\<close>

definition SHUFFLE_SIZE :: int where
  "SHUFFLE_SIZE = 5000"

definition input_fn ::
  "('t, 'm, 'f, 'd) data_api \<Rightarrow> 't \<Rightarrow> 't \<Rightarrow> int \<Rightarrow> int \<Rightarrow> exn + 'd" where
  "input_fn tf images labels epochs batch_size =
     and_then (from_tensor_slices tf (images, labels)) (\<lambda>dataset.
     and_then (ds_shuffle tf dataset SHUFFLE_SIZE) (\<lambda>dataset.
     and_then (ds_repeat tf dataset epochs) (\<lambda>dataset.
     and_then (ds_batch tf dataset batch_size) (\<lambda>dataset.
     and_then (ds_prefetch tf dataset None) (\<lambda>dataset.
     Inr dataset)))))"

section \<open>The OCT input function (cell 18)\<close>

text \<open>
  The notebook defines \<^verbatim>\<open>input_fn\<close> a second time; the second one is \<open>input_fn_oct\<close>
  here, and its inner function \<^verbatim>\<open>_map_func\<close> is \<open>map_func\<close>, with the variables it
  closes over (\<^verbatim>\<open>table\<close>, \<^verbatim>\<open>num_classes\<close>, \<^verbatim>\<open>image_size\<close>) as arguments.
  \<^verbatim>\<open>os.sep\<close> is the argument \<open>os_sep\<close>.
  \<^verbatim>\<open>
  def _map_func(filename):
      label = tf.string_split([filename], delimiter=os.sep).values[-2]
      image = tf.image.decode_jpeg(tf.read_file(filename), channels=3)
      image = tf.image.convert_image_dtype(image, dtype=tf.float32)
      image = tf.image.resize_images(image, size=image_size)
      return (image, tf.one_hot(table.lookup(label), num_classes))
  \<close>
\<close>

definition map_func ::
  "('tab, 'bytes, 'img) tensor_api \<Rightarrow> string \<Rightarrow> 'tab \<Rightarrow> nat \<Rightarrow> nat \<times> nat \<Rightarrow> string \<Rightarrow>
     exn + 'img \<times> rat list" where
  "map_func tf os_sep table num_classes image_size filename =
     and_then (string_split tf [filename] os_sep) (\<lambda>values.
     and_then (values_item tf values (- 2)) (\<lambda>label.
     and_then (read_file tf filename) (\<lambda>contents.
     and_then (decode_jpeg tf contents 3) (\<lambda>image.
     and_then (convert_image_dtype tf image) (\<lambda>image.
     and_then (resize_images tf image image_size) (\<lambda>image.
     and_then (table_lookup tf table label) (\<lambda>index.
     and_then (one_hot tf index num_classes) (\<lambda>encoded.
     Inr (image, encoded)))))))))"

text \<open>
  \<^verbatim>\<open>
  def input_fn(file_pattern, labels, image_size=(224,224), shuffle=False,
               batch_size=64, num_epochs=None, buffer_size=4096,
               prefetch_buffer_size=None):
      table = tf.contrib.lookup.index_table_from_tensor(mapping=tf.constant(labels))
      num_classes = len(labels)
      (_map_func)
      dataset = tf.data.Dataset.list_files(file_pattern, shuffle=shuffle)
      if num_epochs is not None and shuffle:
          dataset = dataset.apply(tf.contrib.data.shuffle_and_repeat(buffer_size, num_epochs))
      elif shuffle:
          dataset = dataset.shuffle(buffer_size)
      elif num_epochs is not None:
          dataset = dataset.repeat(num_epochs)
      dataset = dataset.apply(
          tf.contrib.data.map_and_batch(map_func=_map_func, batch_size=batch_size,
                                        num_parallel_calls=os.cpu_count()))
      dataset = dataset.prefetch(buffer_size=prefetch_buffer_size)
      return dataset
  \<close>
  \<open>os_cpu_count\<close> is the outcome of the call \<^verbatim>\<open>os.cpu_count()\<close>.
\<close>

definition input_fn_oct ::
  "('t, string \<Rightarrow> exn + 'img \<times> rat list, 'f, 'd) data_api \<Rightarrow> ('tab, 'bytes, 'img) tensor_api \<Rightarrow>
   string \<Rightarrow> exn + int option \<Rightarrow>
   string \<Rightarrow> string list \<Rightarrow> nat \<times> nat \<Rightarrow> bool \<Rightarrow> int \<Rightarrow> int option \<Rightarrow> int \<Rightarrow> int option \<Rightarrow>
   exn + 'd" where
  "input_fn_oct tfd tf os_sep os_cpu_count
       file_pattern labels image_size shuffle batch_size num_epochs buffer_size
       prefetch_buffer_size =
     and_then (tf_constant tf labels) (\<lambda>mapping.
     and_then (index_table_from_tensor tf mapping) (\<lambda>table.
     let num_classes = length labels in
     and_then (list_files tfd file_pattern shuffle) (\<lambda>dataset.
     and_then
       (if num_epochs \<noteq> None \<and> shuffle then
          and_then (shuffle_and_repeat tfd buffer_size (the num_epochs)) (\<lambda>f.
            ds_apply tfd dataset f)
        else if shuffle then ds_shuffle tfd dataset buffer_size
        else if num_epochs \<noteq> None then ds_repeat tfd dataset (the num_epochs)
        else Inr dataset) (\<lambda>dataset.
     and_then os_cpu_count (\<lambda>cpus.
     and_then (map_and_batch tfd (map_func tf os_sep table num_classes image_size)
                 batch_size cpus) (\<lambda>f.
     and_then (ds_apply tfd dataset f) (\<lambda>dataset.
     and_then (ds_prefetch tfd dataset prefetch_buffer_size) (\<lambda>dataset.
     Inr dataset))))))))"

text \<open>The call with every optional argument left at its default.\<close>

definition input_fn_oct_defaults ::
  "('t, string \<Rightarrow> exn + 'img \<times> rat list, 'f, 'd) data_api \<Rightarrow> ('tab, 'bytes, 'img) tensor_api \<Rightarrow>
   string \<Rightarrow> exn + int option \<Rightarrow> string \<Rightarrow> string list \<Rightarrow> exn + 'd" where
  "input_fn_oct_defaults tfd tf os_sep os_cpu_count file_pattern labels =
     input_fn_oct tfd tf os_sep os_cpu_count file_pattern labels
       (224, 224) False 64 None 4096 None"

section \<open>Datasets as the pipelines that built them\<close>

text \<open>
  A \<^verbatim>\<open>tf.data\<close> dataset is a description of a pipeline: its source and the
  transformations applied to it, innermost first. With the constructors below as
  the library, an input function returns the pipeline it builds, and no call raises.
\<close>

datatype 'm transformation =
    ShuffleAndRepeat int int
  | MapAndBatch 'm int "int option"

datatype ('t, 'm) dataset =
    FromTensorSlices 't 't
  | ListFiles string bool
  | Shuffle "('t, 'm) dataset" int
  | Repeat "('t, 'm) dataset" int
  | Batch "('t, 'm) dataset" int
  | Prefetch "('t, 'm) dataset" "int option"
  | Apply "('t, 'm) dataset" "'m transformation"

definition pipelines :: "('t, 'm, 'm transformation, ('t, 'm) dataset) data_api" where
  "pipelines =
     \<lparr>from_tensor_slices = (\<lambda>(images, labels). Inr (FromTensorSlices images labels)),
      list_files = (\<lambda>file_pattern shuffle. Inr (ListFiles file_pattern shuffle)),
      ds_shuffle = (\<lambda>d n. Inr (Shuffle d n)),
      ds_repeat = (\<lambda>d n. Inr (Repeat d n)),
      ds_batch = (\<lambda>d n. Inr (Batch d n)),
      ds_prefetch = (\<lambda>d n. Inr (Prefetch d n)),
      ds_apply = (\<lambda>d f. Inr (Apply d f)),
      shuffle_and_repeat = (\<lambda>n count. Inr (ShuffleAndRepeat n count)),
      map_and_batch = (\<lambda>m n calls. Inr (MapAndBatch m n calls))\<rparr>"

text \<open>The transformations of a pipeline in the order of their application.\<close>

datatype 'm stage =
    ShuffleStage int
  | RepeatStage int
  | BatchStage int
  | PrefetchStage "int option"
  | ApplyStage "'m transformation"

fun stages :: "('t, 'm) dataset \<Rightarrow> 'm stage list" where
  "stages (FromTensorSlices images labels) = []"
| "stages (ListFiles file_pattern shuffle) = []"
| "stages (Shuffle d n) = stages d @ [ShuffleStage n]"
| "stages (Repeat d n) = stages d @ [RepeatStage n]"
| "stages (Batch d n) = stages d @ [BatchStage n]"
| "stages (Prefetch d n) = stages d @ [PrefetchStage n]"
| "stages (Apply d f) = stages d @ [ApplyStage f]"

fun source :: "('t, 'm) dataset \<Rightarrow> ('t, 'm) dataset" where
  "source (Shuffle d n) = source d"
| "source (Repeat d n) = source d"
| "source (Batch d n) = source d"
| "source (Prefetch d n) = source d"
| "source (Apply d f) = source d"
| "source d = d"

section \<open>The TensorFlow operations that decide a label\<close>

text \<open>
  Modelled from the spec: the operations of \<open>map_func\<close> on strings, tables and
  indices are TensorFlow's and are not in the repository; the spec speaks only of
  "category-named subfolders of JPEG files" and of "one-hot encoded class
  indicators". Where a property depends on what these operations compute, they are
  the definitions of this section, which follow the documented behaviour of
  TensorFlow 1.x; the operations on files and images stay parameters.

  \<^verbatim>\<open>tf.string_split(source, delimiter)\<close> splits every string of \<open>source\<close> at each
  character of \<open>delimiter\<close> and drops the empty pieces (\<^verbatim>\<open>skip_empty=True\<close>); with an
  empty delimiter every character is a piece.
\<close>

fun split_at :: "(char \<Rightarrow> bool) \<Rightarrow> string \<Rightarrow> string list" where
  "split_at P [] = [[]]"
| "split_at P (c # cs) =
     (if P c then [] # split_at P cs
      else (case split_at P cs of [] \<Rightarrow> [[c]] | w # ws \<Rightarrow> (c # w) # ws))"

definition tf_string_split :: "string list \<Rightarrow> string \<Rightarrow> exn + string list" where
  "tf_string_split src delimiter =
     Inr (concat (map (\<lambda>s.
        if delimiter = [] then map (\<lambda>c. [c]) s
        else filter (\<lambda>w. w \<noteq> []) (split_at (\<lambda>c. c \<in> set delimiter) s)) src))"

text \<open>
  Indexing a vector: a negative index counts from the end, an index outside the
  vector is an error when the graph runs.
\<close>

definition tf_values_item :: "string list \<Rightarrow> int \<Rightarrow> exn + string" where
  "tf_values_item values i =
     (if 0 \<le> i \<and> i < int (length values) then Inr (values ! nat i)
      else if i < 0 \<and> - int (length values) \<le> i then Inr (values ! nat (int (length values) + i))
      else Inl InvalidArgumentError)"

text \<open>
  \<^verbatim>\<open>index_table_from_tensor(mapping)\<close> maps each string of \<open>mapping\<close> to its position;
  \<^verbatim>\<open>lookup\<close> of any other string gives the default -1 (no out-of-vocabulary bucket is
  asked for). A string that occurs twice makes the initialisation of the table
  fail.
\<close>

definition tf_index_table_from_tensor :: "string list \<Rightarrow> exn + string list" where
  "tf_index_table_from_tensor mapping =
     (if distinct mapping then Inr mapping else Inl FailedPreconditionError)"

fun index_from :: "string list \<Rightarrow> string \<Rightarrow> nat \<Rightarrow> int" where
  "index_from [] key k = - 1"
| "index_from (x # xs) key k = (if x = key then int k else index_from xs key (Suc k))"

definition tf_table_lookup :: "string list \<Rightarrow> string \<Rightarrow> exn + int" where
  "tf_table_lookup table key = Inr (index_from table key 0)"

text \<open>
  \<^verbatim>\<open>tf.one_hot(index, depth)\<close> is the vector of \<open>depth\<close> entries with 1 at \<open>index\<close> and 0
  elsewhere; an index outside \<open>0..depth-1\<close> gives the vector of zeros.
\<close>

definition tf_one_hot :: "int \<Rightarrow> nat \<Rightarrow> exn + rat list" where
  "tf_one_hot index depth = Inr (map (\<lambda>j. if int j = index then 1 else 0) [0..<depth])"

definition tensorflow ::
  "(string \<Rightarrow> exn + 'bytes) \<Rightarrow> ('bytes \<Rightarrow> nat \<Rightarrow> exn + 'img) \<Rightarrow> ('img \<Rightarrow> exn + 'img) \<Rightarrow>
   ('img \<Rightarrow> nat \<times> nat \<Rightarrow> exn + 'img) \<Rightarrow> (string list, 'bytes, 'img) tensor_api" where
  "tensorflow file_reader jpeg_decoder converter resizer =
     \<lparr>tf_constant = Inr,
      index_table_from_tensor = tf_index_table_from_tensor,
      table_lookup = tf_table_lookup,
      string_split = tf_string_split,
      values_item = tf_values_item,
      read_file = file_reader,
      decode_jpeg = jpeg_decoder,
      convert_image_dtype = converter,
      resize_images = resizer,
      one_hot = tf_one_hot\<rparr>"

section \<open>Freezing the backbone (cell 21)\<close>

text \<open>
  \<^verbatim>\<open>
  model = tf.keras.Model(inputs=keras_vgg16.input, outputs=predictions)
  for layer in keras_vgg16.layers[:-4]:
      layer.trainable = False
  \<close>
  Layers are objects: the model and the backbone share them. The heap maps the
  address of a layer to its attributes; a list of layers is a list of addresses.
  The attributes other than \<^verbatim>\<open>trainable\<close> and the weights are the record's extension.
\<close>

record 'w layer =
  trainable :: bool
  weights :: 'w

type_synonym ('w, 'x) heap = "nat \<Rightarrow> ('w, 'x) layer_scheme option"

text \<open>The slice \<^verbatim>\<open>xs[:stop]\<close>: a negative \<open>stop\<close> counts from the end.\<close>

definition slice_to :: "'a list \<Rightarrow> int \<Rightarrow> 'a list" where
  "slice_to xs stop =
     (let n = int (length xs); k = (if stop < 0 then max 0 (n + stop) else min stop n)
      in take (nat k) xs)"

definition set_trainable :: "('w, 'x) heap \<Rightarrow> nat \<Rightarrow> bool \<Rightarrow> ('w, 'x) heap" where
  "set_trainable h a v = (case h a of None \<Rightarrow> h | Some l \<Rightarrow> h(a \<mapsto> l\<lparr>trainable := v\<rparr>))"

definition freeze_layers :: "('w, 'x) heap \<Rightarrow> nat list \<Rightarrow> ('w, 'x) heap" where
  "freeze_layers h layers = fold (\<lambda>layer h. set_trainable h layer False) (slice_to layers (- 4)) h"

chapter \<open>Properties\<close>

section \<open>Sequencing\<close>

lemma and_then_Inr [simp]: "and_then (Inr v) k = k v"
  by (simp add: and_then_def)

lemma and_then_Inl [simp]: "and_then (Inl e) k = Inl e"
  by (simp add: and_then_def)

section \<open>The step-timing hook\<close>

lemma before_run_ok:
  "before_run (Inr t) self = Inr (self\<lparr>iter_time_start := Some t\<rparr>)"
  by (simp add: before_run_def)

lemma after_run_ok:
  "times_attr self = Some ts \<Longrightarrow> iter_time_start self = Some t0 \<Longrightarrow>
   after_run (Inr t) self = Inr (self\<lparr>times_attr := Some (ts @ [t - t0])\<rparr>)"
  by (simp add: after_run_def)

text \<open>
  \<open>n\<close> steps from a state whose list is \<open>ts\<close> append the \<open>n\<close> elapsed times, in order;
  neither the start state's \<^verbatim>\<open>iter_time_start\<close> nor anything else is needed.
\<close>

lemma train_steps_times:
  "times_attr self = Some ts \<Longrightarrow>
   \<exists>s'. train_steps (\<lambda>i. Inr (c i)) k n self = Inr s' \<and>
        times_attr s' = Some (ts @ map (\<lambda>i. c (k + 2 * i + 1) - c (k + 2 * i)) [0..<n])"
proof (induction n arbitrary: k self ts)
  case 0
  then show ?case by simp
next
  case (Suc n)
  let ?s1 = "self\<lparr>iter_time_start := Some (c k)\<rparr>"
  let ?s2 = "?s1\<lparr>times_attr := Some (ts @ [c (Suc k) - c k])\<rparr>"
  have step: "train_steps (\<lambda>i. Inr (c i)) k (Suc n) self =
              train_steps (\<lambda>i. Inr (c i)) (Suc (Suc k)) n ?s2"
    using Suc.prems by (simp add: before_run_def after_run_def)
  have "times_attr ?s2 = Some (ts @ [c (Suc k) - c k])" by simp
  from Suc.IH [OF this, of "Suc (Suc k)"]
  obtain s' where s': "train_steps (\<lambda>i. Inr (c i)) (Suc (Suc k)) n ?s2 = Inr s'"
    and t': "times_attr s' = Some ((ts @ [c (Suc k) - c k]) @
               map (\<lambda>i. c (Suc (Suc k) + 2 * i + 1) - c (Suc (Suc k) + 2 * i)) [0..<n])"
    by blast
  have "map (\<lambda>i. c (k + 2 * i + 1) - c (k + 2 * i)) [0..<Suc n] =
        (c (Suc k) - c k) # map (\<lambda>i. c (Suc (Suc k) + 2 * i + 1) - c (Suc (Suc k) + 2 * i)) [0..<n]"
    by (simp add: upt_rec [of 0 "Suc n"] map_Suc_upt [symmetric] del: upt_Suc)
  with step s' t' show ?case by simp
qed

lemma train_run_times:
  "\<exists>s'. train_run (\<lambda>i. Inr (c i)) n self = Inr s' \<and>
        times_attr s' = Some (map (\<lambda>i. c (2 * i + 1) - c (2 * i)) [0..<n])"
  using train_steps_times [of "self\<lparr>times_attr := Some []\<rparr>" "[]" c 0 n]
  by (simp add: train_run_def hook_begin_def)

text \<open>
  Claim C3. \<^verbatim>\<open>begin\<close> sets the list of recorded times to empty; \<^verbatim>\<open>before_run\<close>
  records the current timestamp; \<^verbatim>\<open>after_run\<close> appends the timestamp it reads minus
  the recorded one. A run of \<^verbatim>\<open>begin\<close> followed by \<open>n\<close> pairs of
  \<^verbatim>\<open>before_run\<close>/\<^verbatim>\<open>after_run\<close>, from any instance, returns, and its list has exactly
  \<open>n\<close> entries, the \<open>i\<close>-th being the difference of the two readings of step \<open>i\<close>; under
  a monotone clock every entry is nonnegative.
\<close>

theorem TimeHistory_records_steps:
  "hook_begin self = Inr (self\<lparr>times_attr := Some []\<rparr>) \<and>
   before_run (Inr t) self = Inr (self\<lparr>iter_time_start := Some t\<rparr>) \<and>
   (times_attr self = Some ts \<and> iter_time_start self = Some t0 \<longrightarrow>
      after_run (Inr t) self = Inr (self\<lparr>times_attr := Some (ts @ [t - t0])\<rparr>)) \<and>
   (\<exists>s' rec. train_run (\<lambda>i. Inr (c i)) n self = Inr s' \<and> times_attr s' = Some rec \<and>
      length rec = n \<and>
      rec = map (\<lambda>i. c (2 * i + 1) - c (2 * i)) [0..<n] \<and>
      ((\<forall>i j. i \<le> j \<longrightarrow> c i \<le> c j) \<longrightarrow> (\<forall>x \<in> set rec. 0 \<le> x)))"
proof -
  obtain s' where s': "train_run (\<lambda>i. Inr (c i)) n self = Inr s'"
    and t': "times_attr s' = Some (map (\<lambda>i. c (2 * i + 1) - c (2 * i)) [0..<n])"
    using train_run_times [of c n self] by blast
  have "\<exists>s' rec. train_run (\<lambda>i. Inr (c i)) n self = Inr s' \<and> times_attr s' = Some rec \<and>
      length rec = n \<and>
      rec = map (\<lambda>i. c (2 * i + 1) - c (2 * i)) [0..<n] \<and>
      ((\<forall>i j. i \<le> j \<longrightarrow> c i \<le> c j) \<longrightarrow> (\<forall>x \<in> set rec. 0 \<le> x))"
    using s' t' by auto
  then show ?thesis
    by (simp add: hook_begin_def before_run_ok after_run_ok)
qed

theorem TimeHistory_records_steps_witness:
  "\<exists>s'. train_run (\<lambda>i. Inr (of_nat (i * i))) 3 \<lparr>times_attr = None, iter_time_start = None\<rparr> = Inr s' \<and>
        times_attr s' = Some [1, 5, 9] \<and>
        after_run (Inr 5) \<lparr>times_attr = Some [1], iter_time_start = Some 3\<rparr>
          = Inr \<lparr>times_attr = Some [1, 2], iter_time_start = Some 3\<rparr>"
proof -
  have u: "[0..<3] = [0, 1, 2]"
    by (simp add: eval_nat_numeral upt_rec)
  show ?thesis
    using TimeHistory_records_steps
      [of "\<lparr>times_attr = None, iter_time_start = None\<rparr>" 0 "[]" 0 "\<lambda>i. of_nat (i * i)" 3]
    by (auto simp: after_run_def u)
qed

section \<open>Throughput figures\<close>

lemma foldl_add_sum_list: "foldl (+) a ts = a + sum_list (ts :: rat list)"
  by (induction ts arbitrary: a) (simp_all add: add.assoc)

text \<open>
  Claim C6. The total training time is the sum of the recorded step times, and with
  at least one step recorded the images per second are \<^verbatim>\<open>BATCH_SIZE\<close> times
  \<^verbatim>\<open>NUM_GPUS\<close> divided by the arithmetic mean of the recorded step times, over exact
  rationals. The quotient is a rational when the mean is not zero; a mean of zero
  has no quotient and the code prints an infinity (nan when the product is zero).
\<close>

theorem throughput_figures:
  "total_time ts = sum_list ts \<and>
   (ts \<noteq> [] \<longrightarrow>
      avg_time_per_batch ts = Finite (sum_list ts / of_nat (length ts)) \<and>
      (sum_list ts \<noteq> 0 \<longrightarrow>
         images_per_second BATCH_SIZE NUM_GPUS ts =
           Finite (of_int (BATCH_SIZE * NUM_GPUS) / (sum_list ts / of_nat (length ts)))) \<and>
      (sum_list ts = 0 \<longrightarrow>
         images_per_second BATCH_SIZE NUM_GPUS ts =
           (if BATCH_SIZE * NUM_GPUS = 0 then NaN
            else if 0 < BATCH_SIZE * NUM_GPUS then PosInf else NegInf)))"
  by (simp add: total_time_def foldl_add_sum_list images_per_second_def
      avg_time_per_batch_def np_mean_def np_truediv_def)

theorem throughput_figures_witness:
  "total_time [1/4, 3/4] = 1 \<and> avg_time_per_batch [1/4, 3/4] = Finite (1/2) \<and>
   images_per_second 512 2 [1/4, 3/4] = Finite 2048"
  using throughput_figures [of "[1/4, 3/4]" 512 2]
  by simp

section \<open>Single-precision arithmetic\<close>

lemma round_half_even_nonneg: "0 \<le> x \<Longrightarrow> 0 \<le> round_half_even x"
  by (simp add: round_half_even_def Let_def)

lemma round_half_even_le: "x \<le> of_int N \<Longrightarrow> round_half_even x \<le> N"
proof (cases "x = of_int N")
  case True
  then show ?thesis by (simp add: round_half_even_def Let_def)
next
  case False
  assume "x \<le> of_int N"
  with False have "x < of_int N" by simp
  then have "\<lfloor>x\<rfloor> < N" by (simp add: floor_less_iff)
  then show ?thesis by (simp add: round_half_even_def Let_def)
qed

lemma doublings_numeral:
  "doublings (numeral n) x = (if 1 \<le> x then 0 else Suc (doublings (pred_numeral n) (2 * x)))"
  by (simp add: numeral_eq_Suc)

lemma halvings_small: "a < 2 \<Longrightarrow> halvings n a = 0"
  by (cases n) simp_all

lemma f32_exponent_le_0: "a \<le> 1 \<Longrightarrow> f32_exponent a \<le> 0"
  by (simp add: f32_exponent_def halvings_small)

text \<open>Rounding keeps a value of the unit interval in the unit interval.\<close>

lemma f32_round_unit:
  assumes "0 \<le> q" "q \<le> 1"
  shows "\<exists>v. f32_round q = Finite v \<and> 0 \<le> v \<and> v \<le> 1"
proof -
  define e where "e = f32_exponent q"
  define k where "k = nat (23 - e)"
  define m where "m = round_half_even (q * 2 ^ k)"
  have a: "\<bar>q\<bar> = q" using assms by simp
  have "e \<le> 0" unfolding e_def using assms by (intro f32_exponent_le_0)
  then have "e - 23 = - int k" by (simp add: k_def)
  then have "(2::rat) powi (e - 23) = inverse (2 ^ k)"
    by (simp only: power_int_minus power_int_of_nat)
  then have ulp: "(2::rat) powi (e - 23) = 1 / 2 ^ k"
    by (simp only: inverse_eq_divide)
  have "q * 2 ^ k \<le> of_int (2 ^ k)" using assms by simp
  then have m_le: "m \<le> 2 ^ k" unfolding m_def by (rule round_half_even_le)
  have m_ge: "0 \<le> m" unfolding m_def using assms by (intro round_half_even_nonneg) simp
  define r where "r = (of_int m :: rat) / 2 ^ k"
  have r0: "0 \<le> r" unfolding r_def using m_ge by simp
  have "(of_int m :: rat) \<le> of_int (2 ^ k)" using m_le by (simp only: of_int_le_iff)
  then have r1: "r \<le> 1" unfolding r_def by (simp add: divide_le_eq)
  have not_inf: "\<not> (2::rat) ^ 128 \<le> r"
  proof
    assume "(2::rat) ^ 128 \<le> r"
    with r1 have "(2::rat) ^ 128 \<le> 1" by simp
    then show False by simp
  qed
  have eq: "of_int (round_half_even (q / 2 powi (f32_exponent q - 23))) *
              2 powi (f32_exponent q - 23) = r"
    using ulp by (simp add: e_def m_def r_def)
  have res: "f32_round q = Finite (sgn q * r)"
    unfolding f32_round_def Let_def a eq using not_inf by simp
  have "0 \<le> sgn q * r \<and> sgn q * r \<le> 1"
    using assms r0 r1 by (cases "q = 0") (simp_all add: sgn_if)
  with res show ?thesis by blast
qed

lemma f32_truediv_unit:
  assumes "n \<le> 255"
  shows "\<exists>v. f32_truediv (of_nat n) 255 = Finite v \<and> 0 \<le> v \<and> v \<le> 1"
proof -
  have "(of_nat n :: rat) \<le> of_nat 255" using assms by (simp only: of_nat_le_iff)
  then have "(of_nat n :: rat) / 255 \<le> 1" by simp
  moreover have "0 \<le> (of_nat n :: rat) / 255" by simp
  ultimately show ?thesis
    unfolding f32_truediv_def
    using f32_round_unit [of "of_nat n / 255"] by simp
qed

lemma normalize_pixel_unit:
  "\<exists>v. normalize_pixel p = Finite v \<and> 0 \<le> v \<and> v \<le> 1"
proof -
  have "unat p < 2 ^ 8" using unsigned_less [of p] by simp
  then have "unat p \<le> 255" by simp
  then show ?thesis
    unfolding normalize_pixel_def by (rule f32_truediv_unit)
qed

text \<open>Evaluation of a rounding, one step at a time.\<close>

lemma f32_round_eval:
  assumes "f32_exponent \<bar>x\<bar> = e" "2 powi (e - 23) = u" "round_half_even (\<bar>x\<bar> / u) = m"
    and "\<not> 2 ^ 128 \<le> of_int m * u"
  shows "f32_round x = Finite (sgn x * (of_int m * u))"
  using assms by (simp add: f32_round_def Let_def)

lemma f32_round_0: "f32_round 0 = Finite 0"
  by (simp add: f32_round_def Let_def round_half_even_def)

lemma f32_round_1: "f32_round 1 = Finite 1"
proof -
  have e: "f32_exponent \<bar>1\<bar> = 0" by (simp add: f32_exponent_def halvings_small)
  have u: "(2::rat) powi (0 - 23) = 1 / 8388608" by (simp add: power_int_minus)
  have "\<lfloor>8388608 :: rat\<rfloor> = 8388608" by (rule floor_unique) simp_all
  then have m: "round_half_even (\<bar>1\<bar> / (1 / 8388608)) = 8388608"
    by (simp add: round_half_even_def Let_def)
  show ?thesis using f32_round_eval [OF e u m] by simp
qed

lemma normalize_pixel_128: "normalize_pixel 128 = Finite (8421505 / 16777216)"
proof -
  have e: "f32_exponent \<bar>128 / 255\<bar> = - 1"
    by (simp add: f32_exponent_def doublings_numeral)
  have u: "(2::rat) powi (- 1 - 23) = 1 / 16777216" by (simp add: power_int_minus)
  have "\<lfloor>2147483648 / 255 :: rat\<rfloor> = 8421504" by (rule floor_unique) simp_all
  then have m: "round_half_even (\<bar>128 / 255\<bar> / (1 / 16777216)) = 8421505"
    by (simp add: round_half_even_def Let_def)
  show ?thesis using f32_round_eval [OF e u m]
    by (simp add: normalize_pixel_def f32_truediv_def)
qed

section \<open>Preprocessing of the images\<close>

lemma preprocess_images_data:
  "preprocess_images images = Inr b \<Longrightarrow> data b = map normalize_pixel (data images)"
  by (auto simp: preprocess_images_def len_ndarray_def reshape_def normalize_images_def
      split: list.splits if_splits)

text \<open>
  Claim C4. Every pixel intensity from 0 to 255, converted to single precision and
  divided by 255, gives a value of the closed interval from 0 to 1 (0 gives 0 and
  255 gives 1), and so does every element of an image array, train or test, after
  the normalisation step and after the whole cell.
\<close>

theorem normalized_pixels_in_unit_interval:
  "(\<exists>v. normalize_pixel p = Finite v \<and> 0 \<le> v \<and> v \<le> 1) \<and>
   normalize_pixel 0 = Finite 0 \<and> normalize_pixel 255 = Finite 1 \<and>
   (\<forall>x \<in> set (data (normalize_images images)). \<exists>v. x = Finite v \<and> 0 \<le> v \<and> v \<le> 1) \<and>
   (\<forall>b. preprocess_images images = Inr b \<longrightarrow>
      (\<forall>x \<in> set (data b). \<exists>v. x = Finite v \<and> 0 \<le> v \<and> v \<le> 1))"
proof -
  have z: "normalize_pixel 0 = Finite 0"
    by (simp add: normalize_pixel_def f32_truediv_def f32_round_0)
  have o: "normalize_pixel 255 = Finite 1"
    by (simp add: normalize_pixel_def f32_truediv_def f32_round_1)
  have n: "\<forall>x \<in> set (data (normalize_images images)). \<exists>v. x = Finite v \<and> 0 \<le> v \<and> v \<le> 1"
    using normalize_pixel_unit by (auto simp: normalize_images_def)
  have "\<forall>b. preprocess_images images = Inr b \<longrightarrow>
      (\<forall>x \<in> set (data b). \<exists>v. x = Finite v \<and> 0 \<le> v \<and> v \<le> 1)"
    using normalize_pixel_unit by (auto dest!: preprocess_images_data)
  with normalize_pixel_unit [of p] z o n show ?thesis by blast
qed

theorem normalized_pixels_in_unit_interval_witness:
  "normalize_pixel 128 = Finite (8421505 / 16777216) \<and>
   (\<exists>v. normalize_pixel 128 = Finite v \<and> 0 \<le> v \<and> v \<le> 1) \<and>
   (\<exists>b. preprocess_images \<lparr>shape = [1, 28, 28], data = replicate 784 128\<rparr> = Inr b \<and>
        shape b = [1, 28, 28, 1] \<and> hd (data b) = Finite (8421505 / 16777216) \<and>
        (\<exists>v. hd (data b) = Finite v \<and> 0 \<le> v \<and> v \<le> 1))"
proof -
  let ?a = "\<lparr>shape = [1, 28, 28], data = replicate 784 (128 :: 8 word)\<rparr>"
  let ?b = "\<lparr>shape = [1, 28, 28, 1], data = replicate 784 (normalize_pixel 128)\<rparr>"
  have run: "preprocess_images ?a = Inr ?b"
    by (simp add: preprocess_images_def len_ndarray_def reshape_def normalize_images_def)
  have hd: "hd (data ?b) = normalize_pixel 128"
    by (simp add: numeral_eq_Suc)
  have "hd (data ?b) \<in> set (data ?b)" by (simp add: numeral_eq_Suc)
  with normalized_pixels_in_unit_interval [of 128 ?a] run
  have "\<exists>v. hd (data ?b) = Finite v \<and> 0 \<le> v \<and> v \<le> 1" by blast
  with run hd normalize_pixel_128 show ?thesis by auto
qed

section \<open>Reshaping\<close>

lemma flat_index_3:
  "i < N \<Longrightarrow> j < 28 \<Longrightarrow> k < 28 \<Longrightarrow>
   flat_index [N, 28, 28] [i, j, k] = Some (i * 784 + j * 28 + k)"
  by simp

lemma flat_index_4:
  "i < N \<Longrightarrow> j < 28 \<Longrightarrow> k < 28 \<Longrightarrow>
   flat_index [N, 28, 28, 1] [i, j, k, 0] = Some (i * 784 + j * 28 + k)"
  by simp

lemma item_3:
  assumes "shape a = [N, 28, 28]" "length (data a) = N * 784" "i < N" "j < 28" "k < 28"
  shows "item a [i, j, k] = Inr (data a ! (i * 784 + j * 28 + k))"
proof -
  have "i * 784 + j * 28 + k < N * 784" using assms(3-5) by arith
  moreover have "flat_index (shape a) [i, j, k] = Some (i * 784 + j * 28 + k)"
    unfolding assms(1) using assms(3-5) by (rule flat_index_3)
  ultimately show ?thesis
    using assms(2) by (simp add: item_def)
qed

lemma item_4:
  assumes "shape a = [N, 28, 28, 1]" "length (data a) = N * 784" "i < N" "j < 28" "k < 28"
  shows "item a [i, j, k, 0] = Inr (data a ! (i * 784 + j * 28 + k))"
proof -
  have "i * 784 + j * 28 + k < N * 784" using assms(3-5) by arith
  moreover have "flat_index (shape a) [i, j, k, 0] = Some (i * 784 + j * 28 + k)"
    unfolding assms(1) using assms(3-5) by (rule flat_index_4)
  ultimately show ?thesis
    using assms(2) by (simp add: item_def)
qed

text \<open>
  Claim C7. Reshaping an image array to \<open>(N, 28, 28, 1)\<close> succeeds exactly when the
  array holds \<open>N \<times> 28 \<times> 28\<close> values (it raises ValueError otherwise); the result
  holds the same elements in the same order, so the same number of them, under the
  new shape, and nothing else of the array changes. For an array of shape
  \<open>(N, 28, 28)\<close>, as loaded, the pixel \<open>(i, j, k)\<close> of the input is the pixel
  \<open>(i, j, k, 0)\<close> of the result; the cell as a whole returns the normalised pixels
  under the shape \<open>(N, 28, 28, 1)\<close>.
\<close>

theorem reshape_keeps_elements:
  "(length (data a) = N * 28 * 28 \<longrightarrow>
      reshape a [N, 28, 28, 1] = Inr (a\<lparr>shape := [N, 28, 28, 1]\<rparr>)) \<and>
   (length (data a) \<noteq> N * 28 * 28 \<longrightarrow> reshape a [N, 28, 28, 1] = Inl ValueError) \<and>
   (\<forall>b. reshape a [N, 28, 28, 1] = Inr b \<longrightarrow>
      shape b = [N, 28, 28, 1] \<and> data b = data a \<and> length (data b) = N * 28 * 28 \<and>
      well_shaped b) \<and>
   (shape a = [N, 28, 28] \<and> well_shaped a \<longrightarrow>
      (\<exists>b. reshape a [N, 28, 28, 1] = Inr b \<and>
         (\<forall>i j k. i < N \<and> j < 28 \<and> k < 28 \<longrightarrow>
            item b [i, j, k, 0] = item a [i, j, k] \<and>
            item a [i, j, k] = Inr (data a ! (i * 784 + j * 28 + k))))) \<and>
   (shape images = [N, 28, 28] \<and> well_shaped images \<longrightarrow>
      preprocess_images images =
        Inr \<lparr>shape = [N, 28, 28, 1], data = map normalize_pixel (data images)\<rparr>)"
proof -
  have 1: "length (data a) = N * 28 * 28 \<longrightarrow>
      reshape a [N, 28, 28, 1] = Inr (a\<lparr>shape := [N, 28, 28, 1]\<rparr>)"
    by (simp add: reshape_def)
  have 2: "length (data a) \<noteq> N * 28 * 28 \<longrightarrow> reshape a [N, 28, 28, 1] = Inl ValueError"
    by (simp add: reshape_def)
  have 3: "\<forall>b. reshape a [N, 28, 28, 1] = Inr b \<longrightarrow>
      shape b = [N, 28, 28, 1] \<and> data b = data a \<and> length (data b) = N * 28 * 28 \<and>
      well_shaped b"
    by (auto simp: reshape_def well_shaped_def split: if_splits)
  have 4: "shape a = [N, 28, 28] \<and> well_shaped a \<longrightarrow>
      (\<exists>b. reshape a [N, 28, 28, 1] = Inr b \<and>
         (\<forall>i j k. i < N \<and> j < 28 \<and> k < 28 \<longrightarrow>
            item b [i, j, k, 0] = item a [i, j, k] \<and>
            item a [i, j, k] = Inr (data a ! (i * 784 + j * 28 + k))))"
  proof
    assume h: "shape a = [N, 28, 28] \<and> well_shaped a"
    then have len: "length (data a) = N * 784" by (simp add: well_shaped_def)
    let ?b = "a\<lparr>shape := [N, 28, 28, 1]\<rparr>"
    have r: "reshape a [N, 28, 28, 1] = Inr ?b" using len by (simp add: reshape_def)
    have "\<forall>i j k. i < N \<and> j < 28 \<and> k < 28 \<longrightarrow>
            item ?b [i, j, k, 0] = item a [i, j, k] \<and>
            item a [i, j, k] = Inr (data a ! (i * 784 + j * 28 + k))"
      using h len item_3 [of a N] item_4 [of ?b N] by simp
    with r show "\<exists>b. reshape a [N, 28, 28, 1] = Inr b \<and>
         (\<forall>i j k. i < N \<and> j < 28 \<and> k < 28 \<longrightarrow>
            item b [i, j, k, 0] = item a [i, j, k] \<and>
            item a [i, j, k] = Inr (data a ! (i * 784 + j * 28 + k)))"
      by blast
  qed
  have 5: "shape images = [N, 28, 28] \<and> well_shaped images \<longrightarrow>
      preprocess_images images =
        Inr \<lparr>shape = [N, 28, 28, 1], data = map normalize_pixel (data images)\<rparr>"
    by (simp add: preprocess_images_def len_ndarray_def reshape_def normalize_images_def
        well_shaped_def)
  from 1 2 3 4 5 show ?thesis by blast
qed

theorem reshape_keeps_elements_witness:
  "reshape \<lparr>shape = [1, 28, 28], data = [0 ..< 784]\<rparr> [1, 28, 28, 1]
     = Inr \<lparr>shape = [1, 28, 28, 1], data = [0 ..< 784]\<rparr> \<and>
   item \<lparr>shape = [1, 28, 28, 1], data = [0 ..< 784]\<rparr> [0, 3, 5, 0] = Inr 89 \<and>
   item \<lparr>shape = [1, 28, 28], data = [0 ..< 784]\<rparr> [0, 3, 5] = Inr 89 \<and>
   reshape \<lparr>shape = [2, 2], data = [0 ..< 4]\<rparr> [1, 28, 28, 1] = Inl ValueError"
proof -
  let ?a = "\<lparr>shape = [1, 28, 28], data = [0 ..< 784]\<rparr>"
  have w: "shape ?a = [1, 28, 28] \<and> well_shaped ?a" by (simp add: well_shaped_def)
  have l: "length (data ?a) = 1 * 28 * 28" by simp
  have nl: "length (data \<lparr>shape = [2, 2], data = [0 ..< 4]\<rparr>) \<noteq> 1 * 28 * 28" by simp
  from reshape_keeps_elements [of ?a 1 "\<lparr>shape = [], data = []\<rparr>"] w l
  have r: "reshape ?a [1, 28, 28, 1] = Inr (?a\<lparr>shape := [1, 28, 28, 1]\<rparr>)"
    and i: "\<exists>b. reshape ?a [1, 28, 28, 1] = Inr b \<and>
         (\<forall>i j k. i < 1 \<and> j < 28 \<and> k < 28 \<longrightarrow>
            item b [i, j, k, 0] = item ?a [i, j, k] \<and>
            item ?a [i, j, k] = Inr (data ?a ! (i * 784 + j * 28 + k)))"
    by blast+
  from i r have "item (?a\<lparr>shape := [1, 28, 28, 1]\<rparr>) [0, 3, 5, 0] = item ?a [0, 3, 5] \<and>
      item ?a [0, 3, 5] = Inr (data ?a ! (0 * 784 + 3 * 28 + 5))"
    by auto
  moreover have "reshape \<lparr>shape = [2, 2], data = [0 ..< 4]\<rparr> [1, 28, 28, 1] = Inl ValueError"
    using reshape_keeps_elements
      [of "\<lparr>shape = [2, 2], data = [0 ..< 4]\<rparr>" 1 "\<lparr>shape = [], data = []\<rparr>"] nl
    by blast
  ultimately show ?thesis using r by simp
qed

section \<open>One-hot encoding of the labels\<close>

lemma one_hot_row_ok:
  "0 \<le> l \<Longrightarrow> l < int n \<Longrightarrow> one_hot_row n l = Inr ((replicate n 0)[nat l := 1])"
  by (simp add: one_hot_row_def)

lemma one_hot_rows_ok:
  "\<forall>l \<in> set y. 0 \<le> l \<and> l < int n \<Longrightarrow>
   one_hot_rows n y = Inr (map (\<lambda>l. (replicate n 0)[nat l := 1]) y)"
  by (induction y) (simp_all add: one_hot_row_ok)

lemma sum_list_one_hot: "i < n \<Longrightarrow> sum_list ((replicate n (0::rat))[i := 1]) = 1"
proof (induction n arbitrary: i)
  case 0
  then show ?case by simp
next
  case (Suc n)
  then show ?case by (cases i) (simp_all add: sum_list_replicate)
qed

lemma one_hot_vector:
  assumes "i < n"
  shows "length ((replicate n (0::rat))[i := 1]) = n \<and>
         (replicate n (0::rat))[i := 1] ! i = 1 \<and>
         (\<forall>j<n. j \<noteq> i \<longrightarrow> (replicate n (0::rat))[i := 1] ! j = 0) \<and>
         sum_list ((replicate n (0::rat))[i := 1]) = 1"
  using assms by (simp add: sum_list_one_hot)

lemma to_categorical_ok:
  assumes "\<forall>l \<in> set y. 0 \<le> l \<and> l < 10"
  shows "to_categorical y LABEL_DIMENSIONS = Inr (map (\<lambda>l. (replicate 10 0)[nat l := 1]) y)"
  using one_hot_rows_ok [of y 10] assms
  by (simp add: to_categorical_def LABEL_DIMENSIONS_def)

text \<open>
  Claim C5. A class label \<open>l\<close> with \<open>0 \<le> l < 10\<close> is encoded as a vector of
  \<^verbatim>\<open>LABEL_DIMENSIONS\<close> = 10 entries with 1 at index \<open>l\<close> and 0 everywhere else, whose
  entries sum to exactly 1; every row of the encoded matrix of a label array with
  such labels is the vector of its label, also after the cast to single precision.
\<close>

theorem to_categorical_one_hot:
  "((\<forall>l \<in> set y. 0 \<le> l \<and> l < 10) \<longrightarrow>
      (\<exists>m. to_categorical y LABEL_DIMENSIONS = Inr m \<and> length m = length y \<and>
         (\<forall>i<length y.
            length (m ! i) = 10 \<and> m ! i ! nat (y ! i) = 1 \<and>
            (\<forall>j<10. j \<noteq> nat (y ! i) \<longrightarrow> m ! i ! j = 0) \<and>
            sum_list (m ! i) = 1))) \<and>
   ((\<forall>l \<in> set labels. unat l < 10) \<longrightarrow>
      (\<exists>m. encode_labels labels = Inr m \<and> length m = length labels \<and>
         (\<forall>i<length labels.
            length (m ! i) = 10 \<and> m ! i ! unat (labels ! i) = Finite 1 \<and>
            (\<forall>j<10. j \<noteq> unat (labels ! i) \<longrightarrow> m ! i ! j = Finite 0))))"
proof -
  have a: "(\<forall>l \<in> set y. 0 \<le> l \<and> l < 10) \<longrightarrow>
      (\<exists>m. to_categorical y LABEL_DIMENSIONS = Inr m \<and> length m = length y \<and>
         (\<forall>i<length y.
            length (m ! i) = 10 \<and> m ! i ! nat (y ! i) = 1 \<and>
            (\<forall>j<10. j \<noteq> nat (y ! i) \<longrightarrow> m ! i ! j = 0) \<and>
            sum_list (m ! i) = 1))"
  proof
    assume h: "\<forall>l \<in> set y. 0 \<le> l \<and> l < 10"
    let ?m = "map (\<lambda>l. (replicate 10 (0::rat))[nat l := 1]) y"
    have "\<forall>i<length y.
            length (?m ! i) = 10 \<and> ?m ! i ! nat (y ! i) = 1 \<and>
            (\<forall>j<10. j \<noteq> nat (y ! i) \<longrightarrow> ?m ! i ! j = 0) \<and>
            sum_list (?m ! i) = 1"
    proof (intro allI impI)
      fix i assume i: "i < length y"
      with h have "0 \<le> y ! i \<and> y ! i < 10" by simp
      then have "nat (y ! i) < 10" by arith
      from one_hot_vector [OF this] i
      show "length (?m ! i) = 10 \<and> ?m ! i ! nat (y ! i) = 1 \<and>
            (\<forall>j<10. j \<noteq> nat (y ! i) \<longrightarrow> ?m ! i ! j = 0) \<and>
            sum_list (?m ! i) = 1"
        by simp
    qed
    with to_categorical_ok [OF h]
    show "\<exists>m. to_categorical y LABEL_DIMENSIONS = Inr m \<and> length m = length y \<and>
         (\<forall>i<length y.
            length (m ! i) = 10 \<and> m ! i ! nat (y ! i) = 1 \<and>
            (\<forall>j<10. j \<noteq> nat (y ! i) \<longrightarrow> m ! i ! j = 0) \<and>
            sum_list (m ! i) = 1)"
      by auto
  qed
  have b: "(\<forall>l \<in> set labels. unat l < 10) \<longrightarrow>
      (\<exists>m. encode_labels labels = Inr m \<and> length m = length labels \<and>
         (\<forall>i<length labels.
            length (m ! i) = 10 \<and> m ! i ! unat (labels ! i) = Finite 1 \<and>
            (\<forall>j<10. j \<noteq> unat (labels ! i) \<longrightarrow> m ! i ! j = Finite 0)))"
  proof
    assume h: "\<forall>l \<in> set labels. unat l < 10"
    let ?y = "map (\<lambda>l. int (unat l)) labels"
    let ?m = "map (map f32_round) (map (\<lambda>l. (replicate 10 (0::rat))[nat l := 1]) ?y)"
    have "\<forall>z \<in> set ?y. 0 \<le> z \<and> z < 10"
    proof
      fix z assume "z \<in> set ?y"
      then obtain l where l: "l \<in> set labels" and z: "z = int (unat l)" by auto
      from h l have "unat l < 10" by simp
      then have "int (unat l) < int 10" by (simp only: of_nat_less_iff)
      with z show "0 \<le> z \<and> z < 10" by simp
    qed
    from to_categorical_ok [OF this]
    have e: "encode_labels labels = Inr ?m" by (simp add: encode_labels_def)
    have "\<forall>i<length labels.
            length (?m ! i) = 10 \<and> ?m ! i ! unat (labels ! i) = Finite 1 \<and>
            (\<forall>j<10. j \<noteq> unat (labels ! i) \<longrightarrow> ?m ! i ! j = Finite 0)"
    proof (intro allI impI)
      fix i assume i: "i < length labels"
      with h have k: "unat (labels ! i) < 10" by simp
      from one_hot_vector [OF k] i k
      show "length (?m ! i) = 10 \<and> ?m ! i ! unat (labels ! i) = Finite 1 \<and>
            (\<forall>j<10. j \<noteq> unat (labels ! i) \<longrightarrow> ?m ! i ! j = Finite 0)"
        by (simp add: f32_round_0 f32_round_1)
    qed
    with e show "\<exists>m. encode_labels labels = Inr m \<and> length m = length labels \<and>
         (\<forall>i<length labels.
            length (m ! i) = 10 \<and> m ! i ! unat (labels ! i) = Finite 1 \<and>
            (\<forall>j<10. j \<noteq> unat (labels ! i) \<longrightarrow> m ! i ! j = Finite 0))"
      by auto
  qed
  from a b show ?thesis by blast
qed

theorem to_categorical_one_hot_witness:
  "to_categorical [2, 9] LABEL_DIMENSIONS =
     Inr [[0, 0, 1, 0, 0, 0, 0, 0, 0, 0], [0, 0, 0, 0, 0, 0, 0, 0, 0, 1]] \<and>
   (\<exists>m. to_categorical [2, 9] LABEL_DIMENSIONS = Inr m \<and> sum_list (m ! 0) = 1 \<and>
        sum_list (m ! 1) = 1 \<and> m ! 0 ! 2 = 1 \<and> m ! 1 ! 9 = 1) \<and>
   (\<exists>m. encode_labels [2] = Inr m \<and> m ! 0 ! 2 = Finite 1 \<and> m ! 0 ! 3 = Finite 0)"
proof -
  have e: "to_categorical [2, 9] LABEL_DIMENSIONS =
     Inr [[0, 0, 1, 0, 0, 0, 0, 0, 0, 0], [0, 0, 0, 0, 0, 0, 0, 0, 0, 1]]"
    by (simp add: to_categorical_def LABEL_DIMENSIONS_def one_hot_row_def numeral_eq_Suc)
  have h1: "\<forall>l \<in> set [2, 9 :: int]. 0 \<le> l \<and> l < 10" by simp
  have h2: "\<forall>l \<in> set [2 :: 8 word]. unat l < 10" by simp
  from to_categorical_one_hot [of "[2, 9]" "[2]"] h1 h2
  have "(\<exists>m. to_categorical [2, 9] LABEL_DIMENSIONS = Inr m \<and> sum_list (m ! 0) = 1 \<and>
        sum_list (m ! 1) = 1 \<and> m ! 0 ! 2 = 1 \<and> m ! 1 ! 9 = 1) \<and>
   (\<exists>m. encode_labels [2] = Inr m \<and> m ! 0 ! 2 = Finite 1 \<and> m ! 0 ! 3 = Finite 0)"
    by (auto simp: less_Suc_eq)
  with e show ?thesis by blast
qed

section \<open>The Fashion-MNIST input function\<close>

text \<open>
  Claim C2. For every images array, labels array, number of epochs and batch size,
  the Fashion-MNIST input function slices the two arrays into pairs, shuffles with
  a buffer of 5000, repeats \<open>epochs\<close> times, batches by \<open>batch_size\<close> and prefetches, in
  this order, and returns the result: whatever the library does, it returns a
  dataset exactly when these five calls, each on the result of the one before,
  return, and its dataset is the last one's; as a pipeline, the dataset has the
  slices as its source and the four transformations in this order.
\<close>

theorem input_fn_pipeline:
  "(input_fn tf images labels epochs batch_size = Inr ds \<longleftrightarrow>
      (\<exists>d0 d1 d2 d3.
         from_tensor_slices tf (images, labels) = Inr d0 \<and>
         ds_shuffle tf d0 5000 = Inr d1 \<and>
         ds_repeat tf d1 epochs = Inr d2 \<and>
         ds_batch tf d2 batch_size = Inr d3 \<and>
         ds_prefetch tf d3 None = Inr ds)) \<and>
   (\<exists>p. input_fn pipelines images' labels' epochs batch_size = Inr p \<and>
      p = Prefetch (Batch (Repeat (Shuffle (FromTensorSlices images' labels') 5000) epochs)
            batch_size) None \<and>
      source p = FromTensorSlices images' labels' \<and>
      stages p = [ShuffleStage 5000, RepeatStage epochs, BatchStage batch_size,
                  PrefetchStage None])"
proof -
  have "input_fn tf images labels epochs batch_size = Inr ds \<longleftrightarrow>
      (\<exists>d0 d1 d2 d3.
         from_tensor_slices tf (images, labels) = Inr d0 \<and>
         ds_shuffle tf d0 5000 = Inr d1 \<and>
         ds_repeat tf d1 epochs = Inr d2 \<and>
         ds_batch tf d2 batch_size = Inr d3 \<and>
         ds_prefetch tf d3 None = Inr ds)"
    by (auto simp: input_fn_def SHUFFLE_SIZE_def and_then_def split: sum.splits)
  moreover have "\<exists>p. input_fn pipelines images' labels' epochs batch_size = Inr p \<and>
      p = Prefetch (Batch (Repeat (Shuffle (FromTensorSlices images' labels') 5000) epochs)
            batch_size) None \<and>
      source p = FromTensorSlices images' labels' \<and>
      stages p = [ShuffleStage 5000, RepeatStage epochs, BatchStage batch_size,
                  PrefetchStage None]"
    by (simp add: input_fn_def SHUFFLE_SIZE_def pipelines_def)
  ultimately show ?thesis by blast
qed

theorem input_fn_pipeline_witness:
  "\<exists>p. input_fn pipelines ''images'' ''labels'' 5 512 = Inr p \<and>
      p = Prefetch (Batch (Repeat (Shuffle (FromTensorSlices ''images'' ''labels'') 5000) 5)
            512) None \<and>
      stages p = [ShuffleStage 5000, RepeatStage 5, BatchStage 512, PrefetchStage None]"
  using input_fn_pipeline [of pipelines "''images''" "''labels''" 5 512 _ "''images''" "''labels''"]
  by blast

section \<open>The branch of the OCT input function\<close>

text \<open>
  Claim C10. In the OCT input function the branch on \<open>shuffle\<close> and \<open>num_epochs\<close> is
  exhaustive and exclusive: between the list of files and the mapping, exactly one of
  the fused shuffle-and-repeat (shuffle true, \<open>num_epochs\<close> set), a shuffle alone
  (shuffle true, \<open>num_epochs\<close> None), a repeat alone (shuffle false, \<open>num_epochs\<close> set)
  or nothing (shuffle false, \<open>num_epochs\<close> None) is applied; with the default
  arguments the files are listed unshuffled and are neither shuffled nor repeated.
\<close>

theorem input_fn_oct_branch:
  "input_fn_oct pipelines tf os_sep (Inr cpus)
       file_pattern labels image_size shuffle batch_size num_epochs buffer_size
       prefetch_buffer_size =
     and_then (tf_constant tf labels) (\<lambda>mapping.
     and_then (index_table_from_tensor tf mapping) (\<lambda>table.
       Inr (Prefetch
              (Apply
                 (case (shuffle, num_epochs) of
                    (True, Some n) \<Rightarrow>
                      Apply (ListFiles file_pattern True) (ShuffleAndRepeat buffer_size n)
                  | (True, None) \<Rightarrow> Shuffle (ListFiles file_pattern True) buffer_size
                  | (False, Some n) \<Rightarrow> Repeat (ListFiles file_pattern False) n
                  | (False, None) \<Rightarrow> ListFiles file_pattern False)
                 (MapAndBatch (map_func tf os_sep table (length labels) image_size)
                    batch_size cpus))
              prefetch_buffer_size))) \<and>
   input_fn_oct_defaults pipelines tf os_sep (Inr cpus) file_pattern labels =
     and_then (tf_constant tf labels) (\<lambda>mapping.
     and_then (index_table_from_tensor tf mapping) (\<lambda>table.
       Inr (Prefetch
              (Apply (ListFiles file_pattern False)
                 (MapAndBatch (map_func tf os_sep table (length labels) (224, 224)) 64 cpus))
              None))) \<and>
   (\<forall>p. input_fn_oct pipelines tf os_sep (Inr cpus)
          file_pattern labels image_size shuffle batch_size num_epochs buffer_size
          prefetch_buffer_size = Inr p \<longrightarrow>
      source p = ListFiles file_pattern shuffle \<and>
      (\<exists>m. stages p =
         (case (shuffle, num_epochs) of
            (True, Some n) \<Rightarrow> [ApplyStage (ShuffleAndRepeat buffer_size n)]
          | (True, None) \<Rightarrow> [ShuffleStage buffer_size]
          | (False, Some n) \<Rightarrow> [RepeatStage n]
          | (False, None) \<Rightarrow> []) @
         [ApplyStage (MapAndBatch m batch_size cpus), PrefetchStage prefetch_buffer_size]))"
proof -
  have 1: "input_fn_oct pipelines tf os_sep (Inr cpus)
       file_pattern labels image_size shuffle batch_size num_epochs buffer_size
       prefetch_buffer_size =
     and_then (tf_constant tf labels) (\<lambda>mapping.
     and_then (index_table_from_tensor tf mapping) (\<lambda>table.
       Inr (Prefetch
              (Apply
                 (case (shuffle, num_epochs) of
                    (True, Some n) \<Rightarrow>
                      Apply (ListFiles file_pattern True) (ShuffleAndRepeat buffer_size n)
                  | (True, None) \<Rightarrow> Shuffle (ListFiles file_pattern True) buffer_size
                  | (False, Some n) \<Rightarrow> Repeat (ListFiles file_pattern False) n
                  | (False, None) \<Rightarrow> ListFiles file_pattern False)
                 (MapAndBatch (map_func tf os_sep table (length labels) image_size)
                    batch_size cpus))
              prefetch_buffer_size)))"
    for image_size shuffle batch_size num_epochs buffer_size prefetch_buffer_size
    by (cases shuffle; cases num_epochs) (simp_all add: input_fn_oct_def pipelines_def)
  have 2: "input_fn_oct_defaults pipelines tf os_sep (Inr cpus) file_pattern labels =
     and_then (tf_constant tf labels) (\<lambda>mapping.
     and_then (index_table_from_tensor tf mapping) (\<lambda>table.
       Inr (Prefetch
              (Apply (ListFiles file_pattern False)
                 (MapAndBatch (map_func tf os_sep table (length labels) (224, 224)) 64 cpus))
              None)))"
    unfolding input_fn_oct_defaults_def 1 by simp
  have 3: "\<forall>p. input_fn_oct pipelines tf os_sep (Inr cpus)
          file_pattern labels image_size shuffle batch_size num_epochs buffer_size
          prefetch_buffer_size = Inr p \<longrightarrow>
      source p = ListFiles file_pattern shuffle \<and>
      (\<exists>m. stages p =
         (case (shuffle, num_epochs) of
            (True, Some n) \<Rightarrow> [ApplyStage (ShuffleAndRepeat buffer_size n)]
          | (True, None) \<Rightarrow> [ShuffleStage buffer_size]
          | (False, Some n) \<Rightarrow> [RepeatStage n]
          | (False, None) \<Rightarrow> []) @
         [ApplyStage (MapAndBatch m batch_size cpus), PrefetchStage prefetch_buffer_size])"
    unfolding 1
    by (cases shuffle; cases num_epochs) (auto simp: and_then_def split: sum.splits)
  from 1 2 3 show ?thesis by blast
qed

section \<open>The label of an OCT image\<close>

lemma split_at_nonempty: "split_at P s \<noteq> []"
  by (induction s) (auto split: list.splits)

lemma split_at_append:
  "P c \<Longrightarrow> split_at P (xs @ c # ys) = split_at P xs @ split_at P ys"
proof (induction xs)
  case Nil
  then show ?case by simp
next
  case (Cons x xs)
  then show ?case
    using split_at_nonempty [of P xs] by (cases "split_at P xs") simp_all
qed

lemma split_at_none: "\<forall>c \<in> set w. \<not> P c \<Longrightarrow> split_at P w = [w]"
  by (induction w) simp_all

text \<open>
  The pieces of a path that ends in a directory name and a file name end in these
  two.
\<close>

lemma pieces_of_path:
  assumes "cat \<noteq> []" "sep \<notin> set cat" "fname \<noteq> []" "sep \<notin> set fname"
    and "dir = [] \<or> last dir = sep"
  shows "\<exists>pre. filter (\<lambda>w. w \<noteq> []) (split_at (\<lambda>c. c \<in> set [sep]) (dir @ cat @ sep # fname))
           = pre @ [cat, fname]"
proof -
  let ?P = "\<lambda>c. c \<in> set [sep]"
  have c: "split_at ?P cat = [cat]" using assms(2) by (intro split_at_none) auto
  have f: "split_at ?P fname = [fname]" using assms(4) by (intro split_at_none) auto
  have tail: "split_at ?P (cat @ sep # fname) = [cat, fname]"
    using split_at_append [of ?P sep cat fname] c f by simp
  show ?thesis
  proof (cases "dir = []")
    case True
    with tail assms(1,3) show ?thesis by simp
  next
    case False
    with assms(5) obtain d where d: "dir = d @ [sep]" by (metis append_butlast_last_id)
    have "split_at ?P ((d @ [sep]) @ cat @ sep # fname) = split_at ?P d @ [cat, fname]"
      using split_at_append [of ?P sep d "cat @ sep # fname"] tail by simp
    with assms(1,3) show ?thesis unfolding d by simp
  qed
qed

lemma tf_values_item_parent: "tf_values_item (pre @ [cat, fname]) (- 2) = Inr cat"
  by (simp add: tf_values_item_def)

lemma index_from_found:
  "distinct xs \<Longrightarrow> i < length xs \<Longrightarrow> index_from xs (xs ! i) k = int (k + i)"
proof (induction xs arbitrary: i k)
  case Nil
  then show ?case by simp
next
  case (Cons x xs)
  show ?case
  proof (cases i)
    case 0
    then show ?thesis by simp
  next
    case (Suc j)
    with Cons.prems have j: "j < length xs" and d: "distinct xs" and "x \<notin> set xs" by simp_all
    then have "x \<noteq> xs ! j" by (metis nth_mem)
    with Cons.IH [OF d j, of "Suc k"] Suc show ?thesis by simp
  qed
qed

lemma index_from_missing: "key \<notin> set xs \<Longrightarrow> index_from xs key k = - 1"
  by (induction xs arbitrary: k) auto

lemma one_hot_at:
  "i < n \<Longrightarrow> map (\<lambda>j. if int j = int i then 1 else 0) [0..<n] = (replicate n (0::rat))[i := 1]"
  by (rule nth_equalityI) (auto simp: nth_list_update)

lemma one_hot_outside: "map (\<lambda>j. if int j = - 1 then 1 else 0) [0..<n] = replicate n (0::rat)"
  by (rule nth_equalityI) auto

text \<open>What \<open>map_func\<close> returns for a path, in terms of the piece it reads as the label.\<close>

lemma map_func_tensorflow:
  assumes "tf_string_split [filename] os_sep = Inr (pre @ [cat, fname])"
  shows "map_func (tensorflow rf dj cv rs) os_sep table num_classes image_size filename =
     and_then (rf filename) (\<lambda>contents.
     and_then (dj contents 3) (\<lambda>image.
     and_then (cv image) (\<lambda>image.
     and_then (rs image image_size) (\<lambda>image.
       Inr (image, map (\<lambda>j. if int j = index_from table cat 0 then 1 else 0)
                     [0..<num_classes])))))"
  using assms
  by (simp add: map_func_def tensorflow_def tf_values_item_parent tf_table_lookup_def
      tf_one_hot_def)

lemma string_split_path:
  assumes "cat \<noteq> []" "sep \<notin> set cat" "fname \<noteq> []" "sep \<notin> set fname"
    and "dir = [] \<or> last dir = sep"
  shows "\<exists>pre. tf_string_split [dir @ cat @ sep # fname] [sep] = Inr (pre @ [cat, fname])"
  using pieces_of_path [OF assms] by (simp add: tf_string_split_def)

text \<open>
  Claim C1, as amended. For a path that ends in a directory name, \<^verbatim>\<open>os.sep\<close> and a
  file name (the directory name is the second-to-last piece of the path), with the
  directory name at index \<open>i\<close> of the list of labels and no label listed twice, the
  OCT input function builds its table from the labels, and the function it maps
  over the files pairs the decoded image (when the file can be read and decoded)
  with the vector of \<^verbatim>\<open>len(labels)\<close> entries that is 1 at \<open>i\<close> and 0 elsewhere. The
  vector depends on the directory name alone: not on what precedes it in the path,
  not on the file name, not on the image.
\<close>

theorem oct_label_of_parent_directory:
  assumes "cat \<noteq> []" "sep \<notin> set cat" "fname \<noteq> []" "sep \<notin> set fname"
    and "dir = [] \<or> last dir = sep"
    and "distinct labels" "i < length labels" "labels ! i = cat"
  shows "\<exists>table v.
     and_then (tf_constant (tensorflow rf dj cv rs) labels)
       (index_table_from_tensor (tensorflow rf dj cv rs)) = Inr table \<and>
     map_func (tensorflow rf dj cv rs) [sep] table (length labels) image_size
         (dir @ cat @ sep # fname) =
       and_then (rf (dir @ cat @ sep # fname)) (\<lambda>contents.
       and_then (dj contents 3) (\<lambda>image.
       and_then (cv image) (\<lambda>image.
       and_then (rs image image_size) (\<lambda>image. Inr (image, v))))) \<and>
     v = (replicate (length labels) 0)[i := 1] \<and>
     length v = length labels \<and> v ! i = 1 \<and> (\<forall>j < length labels. j \<noteq> i \<longrightarrow> v ! j = 0) \<and>
     input_fn_oct pipelines (tensorflow rf dj cv rs) [sep] (Inr cpus)
         file_pattern labels image_size shuffle batch_size num_epochs buffer_size
         prefetch_buffer_size =
       Inr (Prefetch
              (Apply
                 (if num_epochs \<noteq> None \<and> shuffle then
                    Apply (ListFiles file_pattern shuffle)
                      (ShuffleAndRepeat buffer_size (the num_epochs))
                  else if shuffle then Shuffle (ListFiles file_pattern shuffle) buffer_size
                  else if num_epochs \<noteq> None then
                    Repeat (ListFiles file_pattern shuffle) (the num_epochs)
                  else ListFiles file_pattern shuffle)
                 (MapAndBatch
                    (map_func (tensorflow rf dj cv rs) [sep] table (length labels) image_size)
                    batch_size cpus))
              prefetch_buffer_size)"
proof -
  let ?tf = "tensorflow rf dj cv rs"
  let ?v = "(replicate (length labels) (0::rat))[i := 1]"
  have t: "and_then (tf_constant ?tf labels) (index_table_from_tensor ?tf) = Inr labels"
    using assms(6) by (simp add: tensorflow_def tf_index_table_from_tensor_def)
  obtain pre where "tf_string_split [dir @ cat @ sep # fname] [sep] = Inr (pre @ [cat, fname])"
    using string_split_path [OF assms(1-5)] by blast
  from map_func_tensorflow [OF this]
  have m: "map_func ?tf [sep] labels (length labels) image_size (dir @ cat @ sep # fname) =
       and_then (rf (dir @ cat @ sep # fname)) (\<lambda>contents.
       and_then (dj contents 3) (\<lambda>image.
       and_then (cv image) (\<lambda>image.
       and_then (rs image image_size) (\<lambda>image.
         Inr (image, map (\<lambda>j. if int j = index_from labels cat 0 then 1 else 0)
                       [0..<length labels])))))" .
  have "index_from labels cat 0 = int i"
    using index_from_found [OF assms(6,7), of 0] assms(8) by simp
  then have "map (\<lambda>j. if int j = index_from labels cat 0 then 1 else 0) [0..<length labels] = ?v"
    using one_hot_at [OF assms(7)] by simp
  with m have m': "map_func ?tf [sep] labels (length labels) image_size (dir @ cat @ sep # fname) =
       and_then (rf (dir @ cat @ sep # fname)) (\<lambda>contents.
       and_then (dj contents 3) (\<lambda>image.
       and_then (cv image) (\<lambda>image.
       and_then (rs image image_size) (\<lambda>image. Inr (image, ?v)))))"
    by simp
  have v: "length ?v = length labels \<and> ?v ! i = 1 \<and> (\<forall>j < length labels. j \<noteq> i \<longrightarrow> ?v ! j = 0)"
    using assms(7) by simp
  have p: "input_fn_oct pipelines ?tf [sep] (Inr cpus)
         file_pattern labels image_size shuffle batch_size num_epochs buffer_size
         prefetch_buffer_size =
       Inr (Prefetch
              (Apply
                 (if num_epochs \<noteq> None \<and> shuffle then
                    Apply (ListFiles file_pattern shuffle)
                      (ShuffleAndRepeat buffer_size (the num_epochs))
                  else if shuffle then Shuffle (ListFiles file_pattern shuffle) buffer_size
                  else if num_epochs \<noteq> None then
                    Repeat (ListFiles file_pattern shuffle) (the num_epochs)
                  else ListFiles file_pattern shuffle)
                 (MapAndBatch (map_func ?tf [sep] labels (length labels) image_size)
                    batch_size cpus))
              prefetch_buffer_size)"
    using assms(6)
    by (simp add: input_fn_oct_def pipelines_def tensorflow_def tf_index_table_from_tensor_def)
  from t m' v p show ?thesis by blast
qed

text \<open>
  A directory that is not in the list of labels has no index: the table answers -1
  and the vector is all zeros.
\<close>

lemma oct_label_of_unlisted_directory:
  assumes "cat \<noteq> []" "sep \<notin> set cat" "fname \<noteq> []" "sep \<notin> set fname"
    and "dir = [] \<or> last dir = sep"
    and "cat \<notin> set labels"
  shows "map_func (tensorflow rf dj cv rs) [sep] labels (length labels) image_size
         (dir @ cat @ sep # fname) =
       and_then (rf (dir @ cat @ sep # fname)) (\<lambda>contents.
       and_then (dj contents 3) (\<lambda>image.
       and_then (cv image) (\<lambda>image.
       and_then (rs image image_size) (\<lambda>image.
         Inr (image, replicate (length labels) 0)))))"
proof -
  obtain pre where "tf_string_split [dir @ cat @ sep # fname] [sep] = Inr (pre @ [cat, fname])"
    using string_split_path [OF assms(1-5)] by blast
  from map_func_tensorflow [OF this, of rf dj cv rs labels "length labels" image_size]
    index_from_missing [OF assms(6), of 0] one_hot_outside [of "length labels"]
  show ?thesis by simp
qed

text \<open>
  The claim as stated, for every matched path, fails for a file in a directory that
  is not a label: \<^verbatim>\<open>OCT2017/train/OTHER/x.jpeg\<close> matches the pattern of the training
  set and is paired with the vector of zeros, which has no entry 1.
\<close>

theorem oct_label_of_unlisted_directory_is_zero:
  "map_func (tensorflow Inr (\<lambda>contents channels. Inr contents) Inr (\<lambda>image size. Inr image))
      ''/'' [''CNV'', ''DME'', ''DRUSEN'', ''NORMAL''] 4 (224, 224) ''OCT2017/train/OTHER/x.jpeg''
    = Inr (''OCT2017/train/OTHER/x.jpeg'', [0, 0, 0, 0]) \<and>
   (1 :: rat) \<notin> set [0, 0, 0, 0]"
proof -
  let ?labels = "[''CNV'', ''DME'', ''DRUSEN'', ''NORMAL'']"
  have "map_func (tensorflow Inr (\<lambda>contents channels. Inr contents) Inr (\<lambda>image size. Inr image))
      [CHR ''/''] ?labels (length ?labels) (224, 224)
      (''OCT2017/train/'' @ ''OTHER'' @ CHR ''/'' # ''x.jpeg'') =
       and_then (Inr (''OCT2017/train/'' @ ''OTHER'' @ CHR ''/'' # ''x.jpeg'')) (\<lambda>contents.
       and_then (Inr contents) (\<lambda>image.
       and_then (Inr image) (\<lambda>image.
       and_then (Inr image) (\<lambda>image. Inr (image, replicate (length ?labels) 0)))))"
    by (rule oct_label_of_unlisted_directory) simp_all
  then show ?thesis by (simp add: numeral_eq_Suc)
qed

theorem oct_label_of_parent_directory_witness:
  "map_func (tensorflow Inr (\<lambda>contents channels. Inr contents) Inr (\<lambda>image size. Inr image))
      ''/'' [''CNV'', ''DME'', ''DRUSEN'', ''NORMAL''] 4 (224, 224) ''OCT2017/train/DME/x.jpeg''
    = Inr (''OCT2017/train/DME/x.jpeg'', [0, 1, 0, 0])"
proof -
  let ?tf = "tensorflow Inr (\<lambda>contents channels. Inr contents) Inr (\<lambda>image size. Inr image)
               :: (string list, string, string) tensor_api"
  let ?labels = "[''CNV'', ''DME'', ''DRUSEN'', ''NORMAL'']"
  have t: "and_then (tf_constant ?tf ?labels) (index_table_from_tensor ?tf) = Inr ?labels"
    by (simp add: tensorflow_def tf_index_table_from_tensor_def)
  have "\<exists>table v.
     and_then (tf_constant ?tf ?labels) (index_table_from_tensor ?tf) = Inr table \<and>
     map_func ?tf [CHR ''/''] table (length ?labels) (224, 224)
         (''OCT2017/train/'' @ ''DME'' @ CHR ''/'' # ''x.jpeg'') =
       and_then (Inr (''OCT2017/train/'' @ ''DME'' @ CHR ''/'' # ''x.jpeg'')) (\<lambda>contents.
       and_then (Inr contents) (\<lambda>image.
       and_then (Inr image) (\<lambda>image.
       and_then (Inr image) (\<lambda>image. Inr (image, v))))) \<and>
     v = (replicate (length ?labels) 0)[1 := 1]"
    using oct_label_of_parent_directory
      [of "''DME''" "CHR ''/''" "''x.jpeg''" "''OCT2017/train/''" ?labels 1
          Inr "\<lambda>contents channels. Inr contents" Inr "\<lambda>image size. Inr image" "(224, 224)"
          None "''*.jpeg''" False 64 None 4096 None]
    by auto
  with t show ?thesis by (auto simp: numeral_eq_Suc)
qed

section \<open>The branch of the OCT input function, on the notebook's calls\<close>

theorem input_fn_oct_branch_witness:
  "(\<exists>p m. input_fn_oct pipelines
            (tensorflow Inr (\<lambda>contents channels. Inr contents) Inr (\<lambda>image size. Inr image))
            ''/'' (Inr (Some 8)) ''OCT2017/train/**/*.jpeg''
            [''CNV'', ''DME'', ''DRUSEN'', ''NORMAL''] (224, 224) True 32 (Some 2) 2048 (Some 4)
          = Inr p \<and>
        source p = ListFiles ''OCT2017/train/**/*.jpeg'' True \<and>
        stages p = [ApplyStage (ShuffleAndRepeat 2048 2), ApplyStage (MapAndBatch m 32 (Some 8)),
                    PrefetchStage (Some 4)]) \<and>
   (\<exists>p m. input_fn_oct_defaults pipelines
            (tensorflow Inr (\<lambda>contents channels. Inr contents) Inr (\<lambda>image size. Inr image))
            ''/'' (Inr (Some 8)) ''OCT2017/test/**/*.jpeg''
            [''CNV'', ''DME'', ''DRUSEN'', ''NORMAL'']
          = Inr p \<and>
        p = Prefetch (Apply (ListFiles ''OCT2017/test/**/*.jpeg'' False)
                        (MapAndBatch m 64 (Some 8))) None)"
proof -
  let ?tf = "tensorflow Inr (\<lambda>contents channels. Inr contents) Inr (\<lambda>image size. Inr image)
               :: (string list, string, string) tensor_api"
  let ?labels = "[''CNV'', ''DME'', ''DRUSEN'', ''NORMAL'']"
  have t: "tf_constant ?tf ?labels = Inr ?labels"
    "index_table_from_tensor ?tf ?labels = Inr ?labels"
    by (simp_all add: tensorflow_def tf_index_table_from_tensor_def)
  show ?thesis
    using input_fn_oct_branch
      [of ?tf "''/''" "Some 8" "''OCT2017/train/**/*.jpeg''" ?labels "(224, 224)" True 32
          "Some 2" 2048 "Some 4"]
      input_fn_oct_branch
      [of ?tf "''/''" "Some 8" "''OCT2017/test/**/*.jpeg''" ?labels "(224, 224)" True 32
          "Some 2" 2048 "Some 4"]
    by (auto simp: t)
qed

section \<open>Freezing the backbone\<close>

lemma slice_to_minus_4: "slice_to xs (- 4) = take (length xs - 4) xs"
proof -
  have "nat (max 0 (int (length xs) + - 4)) = length xs - 4" by arith
  then show ?thesis by (simp add: slice_to_def Let_def)
qed

lemma fold_set_trainable:
  "fold (\<lambda>layer h. set_trainable h layer False) xs h a =
     (if a \<in> set xs then map_option (\<lambda>l. l\<lparr>trainable := False\<rparr>) (h a) else h a)"
proof (induction xs arbitrary: h)
  case Nil
  then show ?case by simp
next
  case (Cons x xs)
  let ?f = "\<lambda>layer h. set_trainable h layer False"
  have "fold ?f (x # xs) h a = fold ?f xs (set_trainable h x False) a" by simp
  also have "\<dots> = (if a \<in> set xs
      then map_option (\<lambda>l. l\<lparr>trainable := False\<rparr>) (set_trainable h x False a)
      else set_trainable h x False a)"
    by (rule Cons.IH)
  also have "\<dots> = (if a \<in> set (x # xs)
      then map_option (\<lambda>l. l\<lparr>trainable := False\<rparr>) (h a) else h a)"
    by (cases "h x") (auto simp: set_trainable_def)
  finally show ?case .
qed

lemma freeze_layers_at:
  "freeze_layers h layers a =
     (if a \<in> set (take (length layers - 4) layers)
      then map_option (\<lambda>l. l\<lparr>trainable := False\<rparr>) (h a) else h a)"
  by (simp add: freeze_layers_def slice_to_minus_4 fold_set_trainable)

lemma distinct_take_drop:
  "distinct xs \<Longrightarrow> a \<in> set (drop k xs) \<Longrightarrow> a \<notin> set (take k xs)"
  by (metis append_take_drop_id distinct_append disjoint_iff)

text \<open>
  Claim C9. After the loop, exactly the layers of the backbone other than its last
  four have been set to not trainable; the last four layers of the backbone, the
  Flatten and Dense layers of the head and every other object are as they were, so
  they keep \<^verbatim>\<open>trainable = True\<close> when they had it; of the layers the loop visits only
  \<^verbatim>\<open>trainable\<close> changes, not the weights and no other attribute. The layers of the
  backbone are distinct objects and the two layers of the head are not among them.
\<close>

theorem freeze_all_but_last_four:
  assumes "distinct keras_vgg16_layers"
    and "flatten \<notin> set keras_vgg16_layers" "dense \<notin> set keras_vgg16_layers"
  shows
    "(\<forall>a \<in> set (take (length keras_vgg16_layers - 4) keras_vgg16_layers).
        freeze_layers h keras_vgg16_layers a = map_option (\<lambda>l. l\<lparr>trainable := False\<rparr>) (h a)) \<and>
     (\<forall>a \<in> set (drop (length keras_vgg16_layers - 4) keras_vgg16_layers).
        freeze_layers h keras_vgg16_layers a = h a) \<and>
     freeze_layers h keras_vgg16_layers flatten = h flatten \<and>
     freeze_layers h keras_vgg16_layers dense = h dense \<and>
     (\<forall>a. a \<notin> set keras_vgg16_layers \<longrightarrow> freeze_layers h keras_vgg16_layers a = h a) \<and>
     (\<forall>a l'. freeze_layers h keras_vgg16_layers a = Some l' \<longrightarrow>
        (\<exists>l. h a = Some l \<and> weights l' = weights l \<and> layer.more l' = layer.more l)) \<and>
     ((\<forall>a \<in> set (keras_vgg16_layers @ [flatten, dense]). \<exists>l. h a = Some l \<and> trainable l) \<longrightarrow>
        (\<forall>a \<in> set (keras_vgg16_layers @ [flatten, dense]).
           \<exists>l'. freeze_layers h keras_vgg16_layers a = Some l' \<and>
             (trainable l' \<longleftrightarrow>
                a \<notin> set (take (length keras_vgg16_layers - 4) keras_vgg16_layers))))"
proof -
  let ?n = "length keras_vgg16_layers - 4"
  let ?h' = "freeze_layers h keras_vgg16_layers"
  have frozen: "\<forall>a \<in> set (take ?n keras_vgg16_layers).
        ?h' a = map_option (\<lambda>l. l\<lparr>trainable := False\<rparr>) (h a)"
    by (simp add: freeze_layers_at)
  have last4: "\<forall>a \<in> set (drop ?n keras_vgg16_layers). ?h' a = h a"
    using distinct_take_drop [OF assms(1)] by (simp add: freeze_layers_at)
  have outside: "\<forall>a. a \<notin> set keras_vgg16_layers \<longrightarrow> ?h' a = h a"
    by (auto simp: freeze_layers_at dest: in_set_takeD)
  have attrs: "\<forall>a l'. ?h' a = Some l' \<longrightarrow>
        (\<exists>l. h a = Some l \<and> weights l' = weights l \<and> layer.more l' = layer.more l)"
    by (auto simp: freeze_layers_at split: if_splits)
  have flags: "(\<forall>a \<in> set (keras_vgg16_layers @ [flatten, dense]). \<exists>l. h a = Some l \<and> trainable l) \<longrightarrow>
        (\<forall>a \<in> set (keras_vgg16_layers @ [flatten, dense]).
           \<exists>l'. ?h' a = Some l' \<and> (trainable l' \<longleftrightarrow> a \<notin> set (take ?n keras_vgg16_layers)))"
    by (auto simp: freeze_layers_at)
  from frozen last4 outside attrs flags assms(2,3) show ?thesis by blast
qed

theorem freeze_all_but_last_four_witness:
  "(let h = (\<lambda>a. if a < 8 then Some \<lparr>trainable = True, weights = a\<rparr> else None);
        h' = freeze_layers h [0, 1, 2, 3, 4, 5]
    in h' 0 = Some \<lparr>trainable = False, weights = 0\<rparr> \<and>
       h' 1 = Some \<lparr>trainable = False, weights = 1\<rparr> \<and>
       h' 2 = h 2 \<and> h' 3 = h 3 \<and> h' 4 = h 4 \<and> h' 5 = h 5 \<and> h' 6 = h 6 \<and> h' 7 = h 7)"
proof -
  let ?h = "\<lambda>a::nat. if a < 8 then Some \<lparr>trainable = True, weights = a\<rparr> else None"
  have d: "distinct [0, 1, 2, 3, 4, 5 :: nat]" "6 \<notin> set [0, 1, 2, 3, 4, 5 :: nat]"
    "7 \<notin> set [0, 1, 2, 3, 4, 5 :: nat]"
    by simp_all
  have tk: "take (length [0, 1, 2, 3, 4, 5 :: nat] - 4) [0, 1, 2, 3, 4, 5 :: nat] = [0, 1]"
    and dr: "drop (length [0, 1, 2, 3, 4, 5 :: nat] - 4) [0, 1, 2, 3, 4, 5 :: nat] = [2, 3, 4, 5]"
    by (simp_all add: numeral_eq_Suc)
  from freeze_all_but_last_four [OF d, of ?h]
  show ?thesis unfolding tk dr Let_def by simp
qed

section \<open>Exceptions are not handled\<close>

lemma and_then_Inl_iff:
  "and_then r k = Inl e \<longleftrightarrow> r = Inl e \<or> (\<exists>v. r = Inr v \<and> k v = Inl e)"
  by (cases r) simp_all

lemma and_then_Inr_iff:
  "and_then r k = Inr x \<longleftrightarrow> (\<exists>v. r = Inr v \<and> k v = Inr x)"
  by (cases r) simp_all

lemma input_fn_raises:
  "input_fn tf images labels epochs batch_size = Inl e \<longleftrightarrow>
     from_tensor_slices tf (images, labels) = Inl e \<or>
     (\<exists>d0. from_tensor_slices tf (images, labels) = Inr d0 \<and>
       (ds_shuffle tf d0 5000 = Inl e \<or>
       (\<exists>d1. ds_shuffle tf d0 5000 = Inr d1 \<and>
         (ds_repeat tf d1 epochs = Inl e \<or>
         (\<exists>d2. ds_repeat tf d1 epochs = Inr d2 \<and>
           (ds_batch tf d2 batch_size = Inl e \<or>
           (\<exists>d3. ds_batch tf d2 batch_size = Inr d3 \<and>
              ds_prefetch tf d3 None = Inl e)))))))"
  by (simp add: input_fn_def SHUFFLE_SIZE_def and_then_Inl_iff)

lemma map_func_raises:
  "map_func tf os_sep table num_classes image_size filename = Inl e \<longleftrightarrow>
     string_split tf [filename] os_sep = Inl e \<or>
     (\<exists>values. string_split tf [filename] os_sep = Inr values \<and>
       (values_item tf values (- 2) = Inl e \<or>
       (\<exists>label. values_item tf values (- 2) = Inr label \<and>
         (read_file tf filename = Inl e \<or>
         (\<exists>contents. read_file tf filename = Inr contents \<and>
           (decode_jpeg tf contents 3 = Inl e \<or>
           (\<exists>image0. decode_jpeg tf contents 3 = Inr image0 \<and>
             (convert_image_dtype tf image0 = Inl e \<or>
             (\<exists>image1. convert_image_dtype tf image0 = Inr image1 \<and>
               (resize_images tf image1 image_size = Inl e \<or>
               (\<exists>image2. resize_images tf image1 image_size = Inr image2 \<and>
                 (table_lookup tf table label = Inl e \<or>
                 (\<exists>index. table_lookup tf table label = Inr index \<and>
                    one_hot tf index num_classes = Inl e)))))))))))))"
  by (simp add: map_func_def and_then_Inl_iff)

lemma input_fn_oct_raises:
  "input_fn_oct tfd tf os_sep os_cpu_count
       file_pattern labels image_size shuffle batch_size num_epochs buffer_size
       prefetch_buffer_size = Inl e \<longleftrightarrow>
     tf_constant tf labels = Inl e \<or>
     (\<exists>mapping. tf_constant tf labels = Inr mapping \<and>
       (index_table_from_tensor tf mapping = Inl e \<or>
       (\<exists>table. index_table_from_tensor tf mapping = Inr table \<and>
         (list_files tfd file_pattern shuffle = Inl e \<or>
         (\<exists>d0. list_files tfd file_pattern shuffle = Inr d0 \<and>
           ((if num_epochs \<noteq> None \<and> shuffle then
               shuffle_and_repeat tfd buffer_size (the num_epochs) = Inl e \<or>
               (\<exists>f. shuffle_and_repeat tfd buffer_size (the num_epochs) = Inr f \<and>
                    ds_apply tfd d0 f = Inl e)
             else if shuffle then ds_shuffle tfd d0 buffer_size = Inl e
             else if num_epochs \<noteq> None then ds_repeat tfd d0 (the num_epochs) = Inl e
             else False) \<or>
           (\<exists>d1.
             (if num_epochs \<noteq> None \<and> shuffle then
                \<exists>f. shuffle_and_repeat tfd buffer_size (the num_epochs) = Inr f \<and>
                    ds_apply tfd d0 f = Inr d1
              else if shuffle then ds_shuffle tfd d0 buffer_size = Inr d1
              else if num_epochs \<noteq> None then ds_repeat tfd d0 (the num_epochs) = Inr d1
              else d1 = d0) \<and>
             (os_cpu_count = Inl e \<or>
             (\<exists>cpus. os_cpu_count = Inr cpus \<and>
               (map_and_batch tfd (map_func tf os_sep table (length labels) image_size)
                  batch_size cpus = Inl e \<or>
               (\<exists>f. map_and_batch tfd (map_func tf os_sep table (length labels) image_size)
                       batch_size cpus = Inr f \<and>
                 (ds_apply tfd d1 f = Inl e \<or>
                 (\<exists>d2. ds_apply tfd d1 f = Inr d2 \<and>
                    ds_prefetch tfd d2 prefetch_buffer_size = Inl e)))))))))))))"
  by (auto simp: input_fn_oct_def and_then_Inl_iff and_then_Inr_iff)

lemma before_run_raises: "before_run time_time self = Inl e \<longleftrightarrow> time_time = Inl e"
  by (simp add: before_run_def and_then_Inl_iff)

lemma after_run_raises:
  "times_attr self \<noteq> None \<Longrightarrow> iter_time_start self \<noteq> None \<Longrightarrow>
   after_run time_time self = Inl e \<longleftrightarrow> time_time = Inl e"
  by (auto simp: after_run_def and_then_Inl_iff)

text \<open>
  Claim C8, as amended. None of the notebook's functions handles an exception: an
  exception raised by a library call inside one of them is the exception the
  function raises. The two input functions, the mapped function and \<^verbatim>\<open>before_run\<close>
  raise an exception if and only if one of the library calls they make, each on
  the results of the calls before it, raises that exception; \<^verbatim>\<open>begin\<close> makes no call
  and never raises; \<^verbatim>\<open>after_run\<close> raises an exception if and only if its call of
  \<^verbatim>\<open>time.time()\<close> raises it, provided that \<^verbatim>\<open>times\<close> and \<^verbatim>\<open>iter_time_start\<close> have been
  set. When \<^verbatim>\<open>times\<close> has not been set, \<^verbatim>\<open>after_run\<close> raises AttributeError, whatever
  the clock does; when \<^verbatim>\<open>times\<close> has been set and the clock raises, it raises the
  clock's exception, whether \<^verbatim>\<open>iter_time_start\<close> has been set or not; when \<^verbatim>\<open>times\<close> has
  been set, the clock returns and \<^verbatim>\<open>iter_time_start\<close> has not been set, it raises
  AttributeError.
\<close>

theorem exceptions_propagate_unchanged:
  "(input_fn tfd0 images image_labels epochs batch_size0 = Inl e \<longleftrightarrow>
     from_tensor_slices tfd0 (images, image_labels) = Inl e \<or>
     (\<exists>d0. from_tensor_slices tfd0 (images, image_labels) = Inr d0 \<and>
       (ds_shuffle tfd0 d0 5000 = Inl e \<or>
       (\<exists>d1. ds_shuffle tfd0 d0 5000 = Inr d1 \<and>
         (ds_repeat tfd0 d1 epochs = Inl e \<or>
         (\<exists>d2. ds_repeat tfd0 d1 epochs = Inr d2 \<and>
           (ds_batch tfd0 d2 batch_size0 = Inl e \<or>
           (\<exists>d3. ds_batch tfd0 d2 batch_size0 = Inr d3 \<and>
              ds_prefetch tfd0 d3 None = Inl e)))))))) \<and>
   (map_func tf os_sep table0 num_classes image_size filename = Inl e \<longleftrightarrow>
     string_split tf [filename] os_sep = Inl e \<or>
     (\<exists>values. string_split tf [filename] os_sep = Inr values \<and>
       (values_item tf values (- 2) = Inl e \<or>
       (\<exists>label. values_item tf values (- 2) = Inr label \<and>
         (read_file tf filename = Inl e \<or>
         (\<exists>contents. read_file tf filename = Inr contents \<and>
           (decode_jpeg tf contents 3 = Inl e \<or>
           (\<exists>image0. decode_jpeg tf contents 3 = Inr image0 \<and>
             (convert_image_dtype tf image0 = Inl e \<or>
             (\<exists>image1. convert_image_dtype tf image0 = Inr image1 \<and>
               (resize_images tf image1 image_size = Inl e \<or>
               (\<exists>image2. resize_images tf image1 image_size = Inr image2 \<and>
                 (table_lookup tf table0 label = Inl e \<or>
                 (\<exists>index. table_lookup tf table0 label = Inr index \<and>
                    one_hot tf index num_classes = Inl e)))))))))))))) \<and>
   (input_fn_oct tfd tf os_sep os_cpu_count
       file_pattern labels image_size shuffle batch_size num_epochs buffer_size
       prefetch_buffer_size = Inl e \<longleftrightarrow>
     tf_constant tf labels = Inl e \<or>
     (\<exists>mapping. tf_constant tf labels = Inr mapping \<and>
       (index_table_from_tensor tf mapping = Inl e \<or>
       (\<exists>table. index_table_from_tensor tf mapping = Inr table \<and>
         (list_files tfd file_pattern shuffle = Inl e \<or>
         (\<exists>d0. list_files tfd file_pattern shuffle = Inr d0 \<and>
           ((if num_epochs \<noteq> None \<and> shuffle then
               shuffle_and_repeat tfd buffer_size (the num_epochs) = Inl e \<or>
               (\<exists>f. shuffle_and_repeat tfd buffer_size (the num_epochs) = Inr f \<and>
                    ds_apply tfd d0 f = Inl e)
             else if shuffle then ds_shuffle tfd d0 buffer_size = Inl e
             else if num_epochs \<noteq> None then ds_repeat tfd d0 (the num_epochs) = Inl e
             else False) \<or>
           (\<exists>d1.
             (if num_epochs \<noteq> None \<and> shuffle then
                \<exists>f. shuffle_and_repeat tfd buffer_size (the num_epochs) = Inr f \<and>
                    ds_apply tfd d0 f = Inr d1
              else if shuffle then ds_shuffle tfd d0 buffer_size = Inr d1
              else if num_epochs \<noteq> None then ds_repeat tfd d0 (the num_epochs) = Inr d1
              else d1 = d0) \<and>
             (os_cpu_count = Inl e \<or>
             (\<exists>cpus. os_cpu_count = Inr cpus \<and>
               (map_and_batch tfd (map_func tf os_sep table (length labels) image_size)
                  batch_size cpus = Inl e \<or>
               (\<exists>f. map_and_batch tfd (map_func tf os_sep table (length labels) image_size)
                       batch_size cpus = Inr f \<and>
                 (ds_apply tfd d1 f = Inl e \<or>
                 (\<exists>d2. ds_apply tfd d1 f = Inr d2 \<and>
                    ds_prefetch tfd d2 prefetch_buffer_size = Inl e)))))))))))))) \<and>
   hook_begin self \<noteq> Inl e \<and>
   (before_run time_time self = Inl e \<longleftrightarrow> time_time = Inl e) \<and>
   (times_attr self \<noteq> None \<and> iter_time_start self \<noteq> None \<longrightarrow>
      (after_run time_time self = Inl e \<longleftrightarrow> time_time = Inl e)) \<and>
   (times_attr self = None \<longrightarrow> after_run time_time self = Inl (AttributeError ''times'')) \<and>
   (times_attr self \<noteq> None \<and> iter_time_start self = None \<longrightarrow>
      after_run (Inr t) self = Inl (AttributeError ''iter_time_start'')) \<and>
   (times_attr self \<noteq> None \<longrightarrow> after_run (Inl e) self = Inl e)"
proof (intro conjI)
  show "times_attr self \<noteq> None \<longrightarrow> after_run (Inl e) self = Inl e"
    by (auto simp: after_run_def)
  show "hook_begin self \<noteq> Inl e" by (simp add: hook_begin_def)
  show "times_attr self \<noteq> None \<and> iter_time_start self \<noteq> None \<longrightarrow>
      (after_run time_time self = Inl e \<longleftrightarrow> time_time = Inl e)"
    using after_run_raises [of self time_time e] by blast
  show "times_attr self = None \<longrightarrow> after_run time_time self = Inl (AttributeError ''times'')"
    by (simp add: after_run_def)
  show "times_attr self \<noteq> None \<and> iter_time_start self = None \<longrightarrow>
      after_run (Inr t) self = Inl (AttributeError ''iter_time_start'')"
    by (auto simp: after_run_def)
qed (rule input_fn_raises map_func_raises input_fn_oct_raises before_run_raises)+

text \<open>
  The claim as stated fails for \<^verbatim>\<open>after_run\<close> on an instance on which \<^verbatim>\<open>begin\<close> was never
  called: it raises AttributeError although the clock, its only library call, does
  not raise (and is not even reached).
\<close>

theorem after_run_raises_without_library_exception:
  "after_run (Inr 0) \<lparr>times_attr = None, iter_time_start = None\<rparr> = Inl (AttributeError ''times'') \<and>
   (Inr 0 :: exn + rat) \<noteq> Inl (AttributeError ''times'')"
  by (simp add: after_run_def)

theorem exceptions_propagate_unchanged_witness:
  "after_run (Inl (LibraryError ''clock'')) \<lparr>times_attr = Some [], iter_time_start = Some 0\<rparr>
     = Inl (LibraryError ''clock'') \<and>
   before_run (Inl (LibraryError ''clock'')) \<lparr>times_attr = None, iter_time_start = None\<rparr>
     = Inl (LibraryError ''clock'') \<and>
   after_run (Inr 1) \<lparr>times_attr = Some [], iter_time_start = None\<rparr>
     = Inl (AttributeError ''iter_time_start'') \<and>
   after_run (Inl (LibraryError ''clock'')) \<lparr>times_attr = Some [], iter_time_start = None\<rparr>
     = Inl (LibraryError ''clock'')"
proof -
  have "after_run (Inl (LibraryError ''clock'')) \<lparr>times_attr = Some [], iter_time_start = Some 0\<rparr>
     = Inl (LibraryError ''clock'')"
    using exceptions_propagate_unchanged
      [where e = "LibraryError ''clock''" and time_time = "Inl (LibraryError ''clock'')"
         and self = "\<lparr>times_attr = Some [], iter_time_start = Some 0\<rparr>",
       THEN conjunct2, THEN conjunct2, THEN conjunct2, THEN conjunct2, THEN conjunct2,
       THEN conjunct1]
    by simp
  moreover have "before_run (Inl (LibraryError ''clock'')) \<lparr>times_attr = None, iter_time_start = None\<rparr>
     = Inl (LibraryError ''clock'')"
    using exceptions_propagate_unchanged
      [where e = "LibraryError ''clock''" and time_time = "Inl (LibraryError ''clock'')"
         and self = "\<lparr>times_attr = None, iter_time_start = None\<rparr>",
       THEN conjunct2, THEN conjunct2, THEN conjunct2, THEN conjunct2, THEN conjunct1]
    by simp
  moreover have "after_run (Inr 1) \<lparr>times_attr = Some [], iter_time_start = None\<rparr>
     = Inl (AttributeError ''iter_time_start'')"
    using exceptions_propagate_unchanged
      [where self = "\<lparr>times_attr = Some [], iter_time_start = None\<rparr>" and t = 1,
       THEN conjunct2, THEN conjunct2, THEN conjunct2, THEN conjunct2, THEN conjunct2,
       THEN conjunct2, THEN conjunct2, THEN conjunct1]
    by simp
  moreover have "after_run (Inl (LibraryError ''clock''))
       \<lparr>times_attr = Some [], iter_time_start = None\<rparr> = Inl (LibraryError ''clock'')"
    using exceptions_propagate_unchanged
      [where e = "LibraryError ''clock''"
         and self = "\<lparr>times_attr = Some [], iter_time_start = None\<rparr>",
       THEN conjunct2, THEN conjunct2, THEN conjunct2, THEN conjunct2, THEN conjunct2,
       THEN conjunct2, THEN conjunct2, THEN conjunct2]
    by simp
  ultimately show ?thesis by blast
qed

end
